theory Spec2Isabelle
  imports Main "HOL-Library.Sublist"
begin

section \<open>JavaScript values and effects\<close>

text \<open>
  The action is a Node.js script (\<^verbatim>\<open>src/index.js\<close>), of which the sources hold three
  revisions. The definitions follow the latest one (the first script of
  \<^verbatim>\<open>src/unnamed/part_001\<close>); \<^verbatim>\<open>getIsPullRequest\<close> is of the revision before it, and the
  \<^verbatim>\<open>deploy\<close> of the first revision (\<^verbatim>\<open>src/src/index.js\<close>) is embedded on its own, with the
  suffix \<open>_first\<close>. Strings are lists of characters; a thrown value is an error object, of
  which the script only ever reads the \<^verbatim>\<open>message\<close>.
\<close>

datatype js_error =
    Error string
  | ReferenceError string
  | TypeError string
  | SyntaxError string

fun message :: "js_error \<Rightarrow> string" where
  "message (Error m) = m"
| "message (ReferenceError m) = m"
| "message (TypeError m) = m"
| "message (SyntaxError m) = m"

fun error_name :: "js_error \<Rightarrow> string" where
  "error_name (Error m) = ''Error''"
| "error_name (ReferenceError m) = ''ReferenceError''"
| "error_name (TypeError m) = ''TypeError''"
| "error_name (SyntaxError m) = ''SyntaxError''"

text \<open>\<^verbatim>\<open>String(error)\<close>, that is \<^verbatim>\<open>Error.prototype.toString\<close>.\<close>

definition error_toString :: "js_error \<Rightarrow> string" where
  "error_toString e =
     (if message e = [] then error_name e else error_name e @ '': '' @ message e)"

text \<open>
  Everything the script does to the outside world is an event. The events that can fail
  (a child process, a file operation, a call into the framework) take their outcome from a
  script of outcomes, one per call, in the order of the calls; an exhausted script means
  that every further call succeeds. \<^verbatim>\<open>console.log\<close>, the timer and
  \<^verbatim>\<open>core.setFailed\<close> cannot fail.
\<close>

datatype event =
    Exec string
  | Log string
  | Sleep nat
  | RequireNext string
  | ParseNextConfiguration string
  | NextBuildRun string
  | ScanBuild string string
  | Copy string string
  | WriteFile string string
  | Archive string string string
  | Remove string
  | SetFailed string

type_synonym outcome = "js_error option"

type_synonym 'a io = "outcome list \<Rightarrow> (js_error + 'a) \<times> event list \<times> outcome list"

definition io_return :: "'a \<Rightarrow> 'a io" where
  "io_return x s = (Inr x, [], s)"

definition io_throw :: "js_error \<Rightarrow> 'a io" where
  "io_throw e s = (Inl e, [], s)"

definition io_bind :: "'a io \<Rightarrow> ('a \<Rightarrow> 'b io) \<Rightarrow> 'b io" where
  "io_bind m k s =
     (case m s of
        (Inl e, evs, s') \<Rightarrow> (Inl e, evs, s')
      | (Inr x, evs, s') \<Rightarrow> (case k x s' of (r, evs', s'') \<Rightarrow> (r, evs @ evs', s'')))"

definition io_seq :: "unit io \<Rightarrow> 'b io \<Rightarrow> 'b io" where
  "io_seq m k = io_bind m (\<lambda>_. k)"

text \<open>\<^verbatim>\<open>try { m } catch (error) { h(error) }\<close>\<close>

definition io_catch :: "'a io \<Rightarrow> (js_error \<Rightarrow> 'a io) \<Rightarrow> 'a io" where
  "io_catch m h s =
     (case m s of
        (Inr x, evs, s') \<Rightarrow> (Inr x, evs, s')
      | (Inl e, evs, s') \<Rightarrow> (case h e s' of (r, evs', s'') \<Rightarrow> (r, evs @ evs', s'')))"

text \<open>A sequence of statements: the first one that throws ends the sequence.\<close>

fun io_steps :: "unit io list \<Rightarrow> unit io" where
  "io_steps [] = io_return ()"
| "io_steps (m # ms) = io_seq m (io_steps ms)"

definition perform :: "event \<Rightarrow> unit io" where
  "perform ev s =
     (case s of
        [] \<Rightarrow> (Inr (), [ev], [])
      | None # s' \<Rightarrow> (Inr (), [ev], s')
      | Some e # s' \<Rightarrow> (Inl e, [ev], s'))"

definition emit :: "event \<Rightarrow> unit io" where
  "emit ev s = (Inr (), [ev], s)"

definition console_log :: "string \<Rightarrow> unit io" where
  "console_log m = emit (Log m)"

text \<open>\<^verbatim>\<open>promisify(exec)\<close>: runs a command line in a shell; rejects when it fails.\<close>

definition execAsyncInternal :: "string \<Rightarrow> unit io" where
  "execAsyncInternal cmd = perform (Exec cmd)"

text \<open>
  \<^verbatim>\<open>await new Promise(resolve => setTimeout(resolve, ms))\<close>, the wait of the retry loop in
  the two later revisions. The first revision calls an undeclared \<^verbatim>\<open>sleep\<close> instead
  (\<^verbatim>\<open>sleep_first\<close> below).
\<close>

definition sleep :: "nat \<Rightarrow> unit io" where
  "sleep ms = emit (Sleep ms)"

definition result_of :: "(js_error + 'a) \<times> event list \<times> outcome list \<Rightarrow> js_error + 'a" where
  "result_of r = fst r"

definition events_of :: "(js_error + 'a) \<times> event list \<times> outcome list \<Rightarrow> event list" where
  "events_of r = fst (snd r)"

definition rest_of :: "(js_error + 'a) \<times> event list \<times> outcome list \<Rightarrow> outcome list" where
  "rest_of r = snd (snd r)"

text \<open>The command lines run, in order, and the effects other than log lines.\<close>

fun commands :: "event list \<Rightarrow> string list" where
  "commands [] = []"
| "commands (Exec c # evs) = c # commands evs"
| "commands (_ # evs) = commands evs"

fun is_log :: "event \<Rightarrow> bool" where
  "is_log (Log m) = True"
| "is_log _ = False"

definition effects :: "event list \<Rightarrow> event list" where
  "effects evs = filter (\<lambda>ev. \<not> is_log ev) evs"

text \<open>
  \<^verbatim>\<open>path.join\<close> of two segments that need no normalisation: both are strings (the types
  below admit nothing else, where \<^verbatim>\<open>path.join\<close> throws a \<^verbatim>\<open>TypeError\<close>), the first is not
  empty and has no trailing separator, and neither holds a \<^verbatim>\<open>.\<close>, \<^verbatim>\<open>..\<close> or empty segment. On
  such segments \<^verbatim>\<open>path.join\<close> puts one separator between the two; on others it would also
  normalise the result, which this definition does not do.
\<close>

definition join :: "string \<Rightarrow> string \<Rightarrow> string" where
  "join a b = a @ ''/'' @ b"

section \<open>The configuration object\<close>

text \<open>
  The fields a caller supplies in the \<^verbatim>\<open>configuration\<close> input. A field that is absent
  (or any other falsy value) is the empty string.
\<close>

record user_config =
  subscriptionId :: string
  resourceGroup :: string
  location :: string
  name :: string
  storageAccount :: string
  plan :: string
  buildOutputDir :: string
  assetsContainerName :: string

text \<open>The fields \<^verbatim>\<open>loadConfig\<close> adds to the same object.\<close>

record config = user_config +
  action :: "string option"
  sourcePath :: string
  isPullRequest :: bool
  pullRequestId :: "nat option"
  eventName :: string
  appSecretsJSON :: string
  buildOutputPath :: string
  buildPagesOutputPath :: string
  buildAssetOutputPath :: string

section \<open>deploy\<close>

text \<open>
  The block \<^verbatim>\<open>try { ... } catch (error) { console.log(msg); throw error; }\<close> that
  \<^verbatim>\<open>deploy\<close> writes around each provisioning call.
\<close>

definition log_and_rethrow :: "string \<Rightarrow> unit io \<Rightarrow> unit io" where
  "log_and_rethrow msg body =
     io_catch body (\<lambda>error. io_seq (console_log msg) (io_throw error))"

definition az_group_create :: "config \<Rightarrow> string" where
  "az_group_create config =
     ''az group create --subscription '' @ subscriptionId config @ '' --name '' @
     resourceGroup config @ '' --location '' @ location config"

definition az_storage_account_create :: "config \<Rightarrow> string" where
  "az_storage_account_create config =
     ''az storage account create --subscription '' @ subscriptionId config @ '' --name '' @
     storageAccount config @ '' --location '' @ location config @ '' --resource-group '' @
     resourceGroup config @ '' --kind StorageV2 --sku Standard_LRS''"

definition az_storage_container_create :: "config \<Rightarrow> string" where
  "az_storage_container_create config =
     ''az storage container create --subscription '' @ subscriptionId config @ '' --name '' @
     assetsContainerName config @ '' --account-name '' @ storageAccount config"

definition az_storage_container_set_permission :: "config \<Rightarrow> string" where
  "az_storage_container_set_permission config =
     ''az storage container set-permission --public-access blob --subscription '' @
     subscriptionId config @ '' --account-name '' @ storageAccount config @ '' --name '' @
     assetsContainerName config"

text \<open>
  In the two template literals below the source ends a line with a backslash: a line
  continuation, which contributes nothing; the indentation of the next line stays.
\<close>

definition az_functionapp_create_plan :: "config \<Rightarrow> string" where
  "az_functionapp_create_plan config =
     ''az functionapp create --subscription '' @ subscriptionId config @
     '' --resource-group '' @ resourceGroup config @ '' --plan '' @ plan config @
     ''   --name '' @ name config @ '' --storage-account '' @ storageAccount config @
     '' --runtime node''"

definition az_functionapp_create_consumption :: "config \<Rightarrow> string" where
  "az_functionapp_create_consumption config =
     ''az functionapp create --subscription '' @ subscriptionId config @
     '' --resource-group '' @ resourceGroup config @ '' --consumption-plan-location '' @
     location config @ ''   --name '' @ name config @ '' --storage-account '' @
     storageAccount config @ '' --runtime node''"

definition az_enable_run_from_package :: "config \<Rightarrow> string" where
  "az_enable_run_from_package config =
     ''az functionapp config appsettings set --settings WEBSITE_RUN_FROM_PACKAGE=1 --resource-group '' @
     resourceGroup config @ '' --name '' @ name config"

definition packagePath :: "config \<Rightarrow> string" where
  "packagePath config = join (buildOutputPath config) ''package.zip''"

definition az_config_zip :: "config \<Rightarrow> string" where
  "az_config_zip config =
     ''az functionapp deployment source config-zip --subscription '' @ subscriptionId config @
     '' -n '' @ name config @ '' -g '' @ resourceGroup config @ '' --src '' @ packagePath config"

definition az_upload_assets :: "config \<Rightarrow> string" where
  "az_upload_assets config =
     ''az storage blob upload-batch --subscription '' @ subscriptionId config @
     '' --account-name '' @ storageAccount config @ '' --destination '' @
     assetsContainerName config @ '' --destination-path _next --source '' @
     buildAssetOutputPath config"

definition az_upload_public :: "config \<Rightarrow> string" where
  "az_upload_public config =
     ''az storage blob upload-batch --subscription '' @ subscriptionId config @
     '' --account-name '' @ storageAccount config @ '' --destination '' @
     assetsContainerName config @ '' --destination-path public --source '' @
     join (sourcePath config) ''public''"

definition maxAttempts :: nat where
  "maxAttempts = 3"

text \<open>Decimal digits of a number, as a template literal prints it.\<close>

definition digit_char :: "nat \<Rightarrow> char" where
  "digit_char d = ''0123456789'' ! d"

function string_of_nat :: "nat \<Rightarrow> string" where
  "string_of_nat n =
     (if n < 10 then [digit_char n]
      else string_of_nat (n div 10) @ [digit_char (n mod 10)])"
  by pat_completeness auto
termination
  by (relation "measure id") auto

declare string_of_nat.simps [simp del]

text \<open>
  The retry loop \<^verbatim>\<open>for (let attempt = 1; attempt <= maxAttempts; ++attempt)\<close>, from the
  iteration \<open>attempt\<close> on. A successful upload leaves the loop (\<^verbatim>\<open>break\<close>); a failed one
  either waits and goes on with the next iteration, or throws.
\<close>

function upload_loop :: "config \<Rightarrow> nat \<Rightarrow> unit io" where
  "upload_loop config attempt =
     (if attempt \<le> maxAttempts then
        io_catch
          (io_steps [
             console_log (''Attempting to upload package ('' @ string_of_nat attempt @ ''/'' @
                          string_of_nat maxAttempts @ '')...''),
             execAsyncInternal (az_config_zip config),
             console_log ''Upload successful''])
          (\<lambda>e. if attempt + 1 \<le> maxAttempts then
                 io_steps [
                   console_log (''Could not deploy package to Azure function app, waiting 5s and then retrying... '' @ message e),
                   sleep 5000,
                   upload_loop config (attempt + 1)]
               else io_throw (Error ''Could not deploy package to Azure function app''))
      else io_return ())"
  by pat_completeness auto
termination
  by (relation "measure (\<lambda>(config, attempt). maxAttempts + 1 - attempt)") auto

declare upload_loop.simps [simp del]

text \<open>The single quote that the log lines put around names.\<close>

definition apostrophe :: string where
  "apostrophe = [CHR 0x27]"

definition deploy :: "config \<Rightarrow> unit io" where
  "deploy config =
     io_steps [
       console_log ''Deploying next application'',
       log_and_rethrow ''Unable to create resource group''
         (io_steps [
            console_log (''Creating resource group '' @ apostrophe @ resourceGroup config @ apostrophe @ ''...''),
            execAsyncInternal (az_group_create config)]),
       log_and_rethrow ''Unable to create storage account''
         (io_steps [
            console_log (''Creating storage account '' @ apostrophe @ storageAccount config @ apostrophe @ ''...''),
            execAsyncInternal (az_storage_account_create config)]),
       log_and_rethrow ''Unable to create storage container''
         (io_steps [
            console_log (''Creating storage container '' @ apostrophe @ assetsContainerName config @ apostrophe @ ''...''),
            execAsyncInternal (az_storage_container_create config)]),
       log_and_rethrow ''Unable to set storage container permissions''
         (io_steps [
            console_log ''Setting storage container permissions...'',
            execAsyncInternal (az_storage_container_set_permission config)]),
       log_and_rethrow ''Unable to create function app''
         (if plan config \<noteq> [] then
            io_steps [
              console_log (''Creating function app '' @ apostrophe @ name config @ apostrophe @
                           '' using '' @ apostrophe @ plan config @ apostrophe @ '' plan...''),
              execAsyncInternal (az_functionapp_create_plan config)]
          else
            io_steps [
              console_log (''Creating function app '' @ apostrophe @ name config @ apostrophe @
                           '' using consumption plan...''),
              execAsyncInternal (az_functionapp_create_consumption config)]),
       log_and_rethrow ''Could not enable package deployment''
         (io_steps [
            console_log ''Enabling package deploy...'',
            execAsyncInternal (az_enable_run_from_package config)]),
       console_log ''Uploading package & assets...'',
       upload_loop config 1,
       console_log ''Uploading assets to blob storage...'',
       io_catch (execAsyncInternal (az_upload_assets config))
         (\<lambda>e. io_throw (Error ''Could not upload assets to Azure blob storage'')),
       console_log ''Uploading public assets to blob storage...'',
       io_catch (execAsyncInternal (az_upload_public config))
         (\<lambda>e. io_throw (Error ''Could not upload public assets to Azure blob storage'')),
       console_log (''Successfully deployed to https://'' @ name config @ ''.azurewebsites.net/'')]"

section \<open>The inputs of a run\<close>

text \<open>A page of the scanned build output: the fields of \<^verbatim>\<open>NextBuild.pages\<close> that are read.\<close>

record page =
  isStatic :: bool
  isSpecial :: bool
  pageSourcePath :: string
  targetPath :: string
  targetFolder :: string
  targetPageFileName :: string

text \<open>
  What a run reads from outside: the action's inputs (\<^verbatim>\<open>core.getInput\<close>), the event
  context (\<^verbatim>\<open>github.context\<close>), the workspace path, the values \<^verbatim>\<open>JSON.parse\<close> gives for
  the three inputs, the pages that \<^verbatim>\<open>NextBuild\<close> finds and the four templates of
  \<^verbatim>\<open>./templates\<close>. The modules \<^verbatim>\<open>./next\<close>, \<^verbatim>\<open>./templates\<close> and
  \<^verbatim>\<open>./parseNextConfiguration\<close> are not part of the sources at hand, so they are parameters.
  \<^verbatim>\<open>JSON_parse_settings\<close> lists the members of the parsed object in the order of
  \<^verbatim>\<open>Object.keys\<close>. \<^verbatim>\<open>context_pull_request_id\<close> is \<open>None\<close> when the payload has no
  \<^verbatim>\<open>pull_request\<close> member.
\<close>

record env =
  getInput :: "string \<Rightarrow> string"
  context_eventName :: string
  context_action :: "string option"
  context_pull_request_id :: "nat option"
  GITHUB_WORKSPACE :: string
  JSON_parse_config :: "string \<Rightarrow> js_error + user_config"
  JSON_parse_boolean :: "string \<Rightarrow> js_error + bool"
  JSON_parse_settings :: "string \<Rightarrow> js_error + (string \<times> string) list"
  buildOutput_pages :: "page list"
  handler :: "string \<Rightarrow> string"
  functionJson :: "page \<Rightarrow> string"
  proxiesJson :: "string \<Rightarrow> page list \<Rightarrow> string"
  hostJson :: string

section \<open>loadConfig\<close>

definition result_bind :: "js_error + 'a \<Rightarrow> ('a \<Rightarrow> js_error + 'b) \<Rightarrow> js_error + 'b" where
  "result_bind r k = (case r of Inl e \<Rightarrow> Inl e | Inr x \<Rightarrow> k x)"

text \<open>Truthiness of \<^verbatim>\<open>config.pullRequestId\<close>: \<^verbatim>\<open>undefined\<close> and \<open>0\<close> are falsy.\<close>

fun truthy_id :: "nat option \<Rightarrow> bool" where
  "truthy_id None = False"
| "truthy_id (Some n) = (n \<noteq> 0)"

definition is_alphanumeric :: "char \<Rightarrow> bool" where
  "is_alphanumeric c =
     (c \<in> set ''abcdefghijklmnopqrstuvwxyz'' \<or> c \<in> set ''ABCDEFGHIJKLMNOPQRSTUVWXYZ'' \<or>
      c \<in> set ''0123456789'')"

text \<open>
  \<^verbatim>\<open>.replace(new RegExp("[^a-zA-Z0-9]+$"), "")\<close>: the one match of the pattern, if any, is
  the longest run of non-alphanumeric characters that ends the string.
\<close>

definition strip_trailing_non_alphanumeric :: "string \<Rightarrow> string" where
  "strip_trailing_non_alphanumeric str = rev (dropWhile (\<lambda>c. \<not> is_alphanumeric c) (rev str))"

text \<open>\<^verbatim>\<open>str.substring(0, n)\<close>; a negative \<open>n\<close> counts as \<open>0\<close>.\<close>

definition substring0 :: "int \<Rightarrow> string \<Rightarrow> string" where
  "substring0 n str = take (nat n) str"

text \<open>
  The rewriting of the names for a pull request, the body of
  \<^verbatim>\<open>if (config.isPullRequest && config.pullRequestId)\<close>.
\<close>

definition pullRequestSuffix :: "nat \<Rightarrow> string" where
  "pullRequestSuffix pr = ''-'' @ string_of_nat pr"

definition nameLength :: "nat \<Rightarrow> int" where
  "nameLength pr = 60 - int (length (pullRequestSuffix pr))"

definition trimmedName :: "string \<Rightarrow> nat \<Rightarrow> string" where
  "trimmedName base pr = strip_trailing_non_alphanumeric (substring0 (nameLength pr) base)"

definition pull_request_names :: "nat \<Rightarrow> config \<Rightarrow> config" where
  "pull_request_names pr config =
     config\<lparr>name := trimmedName (name config) pr @ ''-'' @ string_of_nat pr,
            storageAccount := take 24 (''pr'' @ storageAccount config),
            assetsContainerName := assetsContainerName config @ ''-'' @ string_of_nat pr\<rparr>"

text \<open>
  \<^verbatim>\<open>loadConfig\<close> is one function; its blocks are given one definition each, in the order
  of the source. First the object that \<^verbatim>\<open>JSON.parse\<close> returns gets the fields of the
  context; the three output paths are assigned further down.
\<close>

definition initial_config :: "env \<Rightarrow> user_config \<Rightarrow> string \<Rightarrow> config" where
  "initial_config env parsed secretsJSON =
     user_config.extend parsed
       (config.fields (context_action env) (GITHUB_WORKSPACE env) False None
          (context_eventName env) secretsJSON [] [] [])"

text \<open>
  \<^verbatim>\<open>if (pullRequestJSON) { ... }\<close>. The template literal of the error message names
  \<^verbatim>\<open>eventName\<close>, which nothing in the script declares, so evaluating it throws a
  \<^verbatim>\<open>ReferenceError\<close> before the \<^verbatim>\<open>Error\<close> is built.
\<close>

definition pull_request_mode :: "env \<Rightarrow> string \<Rightarrow> config \<Rightarrow> js_error + config" where
  "pull_request_mode env pullRequestJSON config =
     (if pullRequestJSON \<noteq> [] then
        result_bind (JSON_parse_boolean env pullRequestJSON) (\<lambda>flag.
        let config = config\<lparr>isPullRequest := flag\<rparr> in
        if isPullRequest config then
          if eventName config \<noteq> ''pull_request'' then
            Inl (ReferenceError ''eventName is not defined'')
          else
            (case context_pull_request_id env of
               None \<Rightarrow> Inl (TypeError ''Cannot read property 'id' of undefined'')
             | Some pr \<Rightarrow> Inr (config\<lparr>pullRequestId := Some pr\<rparr>))
        else Inr config)
      else Inr config)"

definition required_values :: "config \<Rightarrow> js_error + config" where
  "required_values config =
     (if subscriptionId config = [] then
        Inl (Error ''Configuration value is missing: subscriptionId'')
      else if resourceGroup config = [] then
        Inl (Error ''Configuration value is missing: resourceGroup'')
      else if location config = [] then
        Inl (Error ''Configuration value is missing: location'')
      else if name config = [] then
        Inl (Error ''Configuration value is missing: name'')
      else if storageAccount config = [] then
        Inl (Error ''Configuration value is missing: storageAccount'')
      else Inr config)"

definition default_values :: "config \<Rightarrow> config" where
  "default_values config =
     (let config = (if buildOutputDir config = [] then config\<lparr>buildOutputDir := ''build''\<rparr>
                    else config);
          config = (if assetsContainerName config = []
                    then config\<lparr>assetsContainerName := ''assets''\<rparr> else config);
          config = config\<lparr>buildOutputPath := join (sourcePath config) (buildOutputDir config)\<rparr>;
          config = config\<lparr>buildPagesOutputPath := join (buildOutputPath config) ''pages''\<rparr>
      in config\<lparr>buildAssetOutputPath := join (buildOutputPath config) ''assets''\<rparr>)"

definition pull_request_rewrite :: "config \<Rightarrow> config" where
  "pull_request_rewrite config =
     (if isPullRequest config \<and> truthy_id (pullRequestId config)
      then pull_request_names (the (pullRequestId config)) config
      else config)"

definition loadConfig :: "env \<Rightarrow> js_error + config" where
  "loadConfig env =
     (let configJSON = getInput env ''configuration'';
          pullRequestJSON = getInput env ''pull-request'';
          secretsJSON = getInput env ''app-settings''
      in
      if configJSON = [] then Inl (Error ''Configuration is missing'')
      else
        result_bind (JSON_parse_config env configJSON) (\<lambda>parsed.
        result_bind (pull_request_mode env pullRequestJSON
                       (initial_config env parsed secretsJSON)) (\<lambda>config.
        result_bind (required_values config) (\<lambda>config.
        Inr (pull_request_rewrite (default_values config))))))"

text \<open>
  The earlier revision of the script checks the mode in a function of its own, which
  \<^verbatim>\<open>run\<close> calls before anything else.
\<close>

definition getIsPullRequest :: "env \<Rightarrow> js_error + bool" where
  "getIsPullRequest env =
     (let pullRequestJSON = getInput env ''pull-request'' in
      if pullRequestJSON \<noteq> [] then
        result_bind (JSON_parse_boolean env pullRequestJSON) (\<lambda>isPullRequest.
        if isPullRequest \<and> context_eventName env \<noteq> ''pull_request'' then
          Inl (ReferenceError ''eventName is not defined'')
        else Inr isPullRequest)
      else Inr False)"

section \<open>The phases of a run\<close>

definition checkAzureCliIsAvailable :: "unit io" where
  "checkAzureCliIsAvailable =
     io_catch (execAsyncInternal ''az --version'')
       (\<lambda>error. io_seq (console_log ''Unable to find Azure CLI'')
                  (io_throw (Error (error_toString error))))"

definition build :: "config \<Rightarrow> unit io" where
  "build config =
     io_steps [
       console_log ''Building next application'',
       io_catch (perform (RequireNext (sourcePath config @ ''/node_modules/next/dist/build'')))
         (\<lambda>e. io_throw (Error ''Unable to load next module. Make sure next is in your package.json and you have run 'npm install'.'')),
       perform (ParseNextConfiguration (sourcePath config)),
       perform (NextBuildRun (sourcePath config))]"

definition packageFilename :: string where
  "packageFilename = ''package.zip''"

definition package :: "env \<Rightarrow> config \<Rightarrow> unit io" where
  "package env config =
     io_steps [
       console_log ''Packaging next application'',
       console_log ''Scanning next build output'',
       perform (ScanBuild (sourcePath config) (buildPagesOutputPath config)),
       console_log ''Processing SSR pages...'',
       io_steps (map (\<lambda>page.
           io_steps [
             perform (Copy (pageSourcePath page) (targetPath page)),
             perform (WriteFile (join (targetFolder page) ''index.js'')
                        (handler env (targetPageFileName page))),
             perform (WriteFile (join (targetFolder page) ''function.json'')
                        (functionJson env page))])
         (filter (\<lambda>p. \<not> isStatic p \<and> \<not> isSpecial p) (buildOutput_pages env))),
       console_log ''Generating proxy configuration...'',
       perform (WriteFile (join (buildPagesOutputPath config) ''proxies.json'')
                  (proxiesJson env
                     (''https://'' @ storageAccount config @ ''.blob.core.windows.net/'' @
                      assetsContainerName config @ ''/'')
                     (buildOutput_pages env))),
       console_log ''Generating host configuration...'',
       perform (WriteFile (join (buildPagesOutputPath config) ''host.json'') (hostJson env)),
       console_log ''Copying static assets'',
       perform (Copy (join (sourcePath config) ''.next/static'')
                  (join (buildAssetOutputPath config) ''static'')),
       io_steps (map (\<lambda>staticPage.
           perform (Copy (pageSourcePath staticPage)
                      (join (join (buildAssetOutputPath config) ''pages'')
                         (targetPageFileName staticPage))))
         (filter (\<lambda>p. isStatic p) (buildOutput_pages env))),
       console_log ''Building Azure functions package'',
       perform (Archive (join (buildOutputPath config) packageFilename)
                  (buildPagesOutputPath config) packageFilename),
       perform (WriteFile (join (buildOutputPath config) ''packagename.txt'') packageFilename),
       perform (Remove (buildPagesOutputPath config))]"

text \<open>
  \<^verbatim>\<open>Object.keys(appSettings).reduce((settings, key) => ..., "")\<close>; a key without a value
  would print as \<^verbatim>\<open>undefined\<close>.
\<close>

definition formattedAppSettings :: "(string \<times> string) list \<Rightarrow> string" where
  "formattedAppSettings appSettings =
     foldl (\<lambda>settings key.
              settings @ key @ ''='' @
              (case map_of appSettings key of Some v \<Rightarrow> v | None \<Rightarrow> ''undefined'') @ '' '')
       [] (map fst appSettings)"

definition az_appsettings_set :: "config \<Rightarrow> (string \<times> string) list \<Rightarrow> string" where
  "az_appsettings_set config appSettings =
     ''az functionapp config appsettings set --settings '' @ formattedAppSettings appSettings @
     '' --resource-group '' @ resourceGroup config @ '' --name '' @ name config"

definition configureAppSettings :: "env \<Rightarrow> config \<Rightarrow> unit io" where
  "configureAppSettings env config =
     (if appSecretsJSON config \<noteq> [] then
        (case JSON_parse_settings env (appSecretsJSON config) of
           Inl e \<Rightarrow> io_throw e
         | Inr appSettings \<Rightarrow> execAsyncInternal (az_appsettings_set config appSettings))
      else io_return ())"

definition az_functionapp_delete :: "config \<Rightarrow> string" where
  "az_functionapp_delete config =
     ''az functionapp delete --subscription '' @ subscriptionId config @
     '' --resource-group '' @ resourceGroup config @ '' --name '' @ name config"

definition az_storage_container_delete :: "config \<Rightarrow> string" where
  "az_storage_container_delete config =
     ''az storage container delete --subscription '' @ subscriptionId config @ '' --name '' @
     assetsContainerName config @ '' --account-name '' @ storageAccount config"

definition az_extension_add :: string where
  "az_extension_add = ''az extension add -n application-insights''"

definition az_app_insights_delete :: "config \<Rightarrow> string" where
  "az_app_insights_delete config =
     ''az monitor app-insights component delete --subscription '' @ subscriptionId config @
     '' --resource-group '' @ resourceGroup config @ '' --app '' @ name config"

definition clean :: "config \<Rightarrow> unit io" where
  "clean config =
     io_steps [
       console_log (''Deleting function app '' @ apostrophe @ name config @ apostrophe @ ''...''),
       execAsyncInternal (az_functionapp_delete config),
       console_log (''Deleting storage container '' @ apostrophe @ assetsContainerName config @
                    apostrophe @ ''...''),
       execAsyncInternal (az_storage_container_delete config),
       execAsyncInternal az_extension_add,
       console_log (''Deleting app-insights '' @ apostrophe @ name config @ apostrophe @ ''...''),
       execAsyncInternal (az_app_insights_delete config)]"

section \<open>run\<close>

definition io_of_result :: "js_error + 'a \<Rightarrow> 'a io" where
  "io_of_result r = (case r of Inl e \<Rightarrow> io_throw e | Inr x \<Rightarrow> io_return x)"

text \<open>\<^verbatim>\<open>core.setFailed(message)\<close>: reports the message and makes the exit code non-zero.\<close>

definition setFailed :: "string \<Rightarrow> unit io" where
  "setFailed m = emit (SetFailed m)"

text \<open>The body of the \<^verbatim>\<open>try\<close> block of \<^verbatim>\<open>run\<close>.\<close>

definition run_body :: "env \<Rightarrow> unit io" where
  "run_body env =
     io_bind (io_of_result (loadConfig env)) (\<lambda>config.
       io_steps [
         checkAzureCliIsAvailable,
         if isPullRequest config \<and> action config = Some ''closed'' then
           io_steps [
             console_log ''cleaning up closed pull request resources.'',
             clean config]
         else
           io_steps [
             build config,
             package env config,
             deploy config,
             configureAppSettings env config]])"

definition run :: "env \<Rightarrow> unit io" where
  "run env = io_catch (run_body env) (\<lambda>error. setFailed (message error))"

section \<open>Observations used in the statements\<close>

text \<open>The outcome that the \<open>j\<close>-th external call of a run receives.\<close>

definition outcome_at :: "outcome list \<Rightarrow> nat \<Rightarrow> outcome" where
  "outcome_at s j = (if j < length s then s ! j else None)"

text \<open>How many uploads fail before the first one that succeeds.\<close>

definition failed_attempts :: "outcome list \<Rightarrow> nat" where
  "failed_attempts s = length (takeWhile (\<lambda>r. r \<noteq> None) s)"

text \<open>The two log lines of the retry loop.\<close>

definition attempt_line :: "nat \<Rightarrow> event" where
  "attempt_line attempt =
     Log (''Attempting to upload package ('' @ string_of_nat attempt @ ''/'' @
          string_of_nat maxAttempts @ '')...'')"

definition retry_line :: "js_error \<Rightarrow> event" where
  "retry_line e =
     Log (''Could not deploy package to Azure function app, waiting 5s and then retrying... '' @
          message e)"

text \<open>The function-app command that \<^verbatim>\<open>deploy\<close> chooses, and its six provisioning commands.\<close>

definition az_functionapp_create :: "config \<Rightarrow> string" where
  "az_functionapp_create config =
     (if plan config \<noteq> [] then az_functionapp_create_plan config
      else az_functionapp_create_consumption config)"

definition provisioning_commands :: "config \<Rightarrow> string list" where
  "provisioning_commands config =
     [az_group_create config, az_storage_account_create config,
      az_storage_container_create config, az_storage_container_set_permission config,
      az_functionapp_create config, az_enable_run_from_package config]"

text \<open>The message that the template literal of \<^verbatim>\<open>loadConfig\<close> was written to produce.\<close>

definition intended_message :: "string \<Rightarrow> string" where
  "intended_message event =
     ''Unable to run in pull request mode when event is not 'pull_request'. Actual event: '' @
     event"

section \<open>Example inputs\<close>

definition example_parsed :: user_config where
  "example_parsed =
     \<lparr>subscriptionId = ''sub'', resourceGroup = ''rg'', location = ''westeurope'',
      name = ''my-app'', storageAccount = ''store'', plan = [], buildOutputDir = [],
      assetsContainerName = []\<rparr>"

text \<open>A push to the main branch, with no application settings.\<close>

definition example_env :: env where
  "example_env =
     \<lparr>getInput = (\<lambda>k. if k = ''configuration'' then ''{}'' else []),
      context_eventName = ''push'', context_action = None, context_pull_request_id = None,
      GITHUB_WORKSPACE = ''/w'',
      JSON_parse_config = (\<lambda>j. Inr example_parsed),
      JSON_parse_boolean = (\<lambda>j. if j = ''true'' then Inr True else Inr False),
      JSON_parse_settings = (\<lambda>j. Inr []),
      buildOutput_pages = [], handler = (\<lambda>f. f), functionJson = (\<lambda>p. []),
      proxiesJson = (\<lambda>u ps. u), hostJson = []\<rparr>"

text \<open>Pull request 12, just opened, and the configuration that \<^verbatim>\<open>loadConfig\<close> gives for it.\<close>

definition example_pr_env :: env where
  "example_pr_env =
     example_env\<lparr>getInput := (\<lambda>k. if k = ''configuration'' then ''{}''
                                 else if k = ''pull-request'' then ''true'' else []),
                 context_eventName := ''pull_request'', context_action := Some ''opened'',
                 context_pull_request_id := Some 12\<rparr>"

definition example_pr_config :: config where
  "example_pr_config =
     \<lparr>subscriptionId = ''sub'', resourceGroup = ''rg'', location = ''westeurope'',
      name = ''my-app-12'', storageAccount = ''prstore'', plan = [], buildOutputDir = ''build'',
      assetsContainerName = ''assets-12'', action = Some ''opened'', sourcePath = ''/w'',
      isPullRequest = True, pullRequestId = Some 12, eventName = ''pull_request'',
      appSecretsJSON = [], buildOutputPath = ''/w/build'',
      buildPagesOutputPath = ''/w/build/pages'', buildAssetOutputPath = ''/w/build/assets''\<rparr>"

text \<open>The pull-request input set on a push.\<close>

definition example_push_env :: env where
  "example_push_env =
     example_env\<lparr>getInput := (\<lambda>k. if k = ''configuration'' then ''{}''
                                 else if k = ''pull-request'' then ''true'' else [])\<rparr>"

section \<open>The orchestrator as the specification describes it\<close>

text \<open>
  The specification describes the orchestrator as a state machine over an ordered sequence
  of steps. Each step runs one command: a step is attempted once, or (the package upload)
  up to three times; a step that fails ends the run, and no later step runs. The machine
  gives whether all steps succeeded, the commands run and the outcomes left.
\<close>

datatype step = Once string | Retried string

fun retry :: "nat \<Rightarrow> string \<Rightarrow> outcome list \<Rightarrow> bool \<times> string list \<times> outcome list" where
  "retry 0 c s = (False, [], s)"
| "retry (Suc n) c s =
     (if outcome_at s 0 = None then (True, [c], drop 1 s)
      else (case retry n c (drop 1 s) of (ok, cs, s') \<Rightarrow> (ok, c # cs, s')))"

fun run_step :: "step \<Rightarrow> outcome list \<Rightarrow> bool \<times> string list \<times> outcome list" where
  "run_step (Once c) s = (outcome_at s 0 = None, [c], drop 1 s)"
| "run_step (Retried c) s = retry 3 c s"

fun run_steps :: "step list \<Rightarrow> outcome list \<Rightarrow> bool \<times> string list \<times> outcome list" where
  "run_steps [] s = (True, [], s)"
| "run_steps (st # steps) s =
     (case run_step st s of
        (ok, cs, s') \<Rightarrow>
          if ok then (case run_steps steps s' of (ok', cs', s'') \<Rightarrow> (ok', cs @ cs', s''))
          else (False, cs, s'))"

text \<open>What the machine shows of a part of the script: success, commands, outcomes left.\<close>

definition observe :: "unit io \<Rightarrow> outcome list \<Rightarrow> bool \<times> string list \<times> outcome list" where
  "observe m s = (result_of (m s) = Inr (), commands (events_of (m s)), rest_of (m s))"

text \<open>
  The steps of a deployment, in the order of the specification: resource group, storage
  account, asset container, public read access, function app, run-from-package, package
  upload (retried), asset tree, public assets; then the application settings, when the
  input is there and parses.
\<close>

definition deploy_steps :: "config \<Rightarrow> step list" where
  "deploy_steps config =
     map Once (provisioning_commands config) @
     [Retried (az_config_zip config), Once (az_upload_assets config),
      Once (az_upload_public config)]"

definition settings_commands :: "env \<Rightarrow> config \<Rightarrow> string list" where
  "settings_commands env config =
     (if appSecretsJSON config = [] then []
      else (case JSON_parse_settings env (appSecretsJSON config) of
              Inl e \<Rightarrow> []
            | Inr appSettings \<Rightarrow> [az_appsettings_set config appSettings]))"

definition settings_parse :: "env \<Rightarrow> config \<Rightarrow> bool" where
  "settings_parse env config =
     (appSecretsJSON config = [] \<or>
      (case JSON_parse_settings env (appSecretsJSON config) of Inl e \<Rightarrow> False | Inr m \<Rightarrow> True))"

definition deployment_steps :: "env \<Rightarrow> config \<Rightarrow> step list" where
  "deployment_steps env config = deploy_steps config @ map Once (settings_commands env config)"

text \<open>The commands of a teardown, in the order of \<^verbatim>\<open>clean\<close>.\<close>

definition clean_commands :: "config \<Rightarrow> string list" where
  "clean_commands config =
     [az_functionapp_delete config, az_storage_container_delete config, az_extension_add,
      az_app_insights_delete config]"

text \<open>The command of a step.\<close>

fun step_command :: "step \<Rightarrow> string" where
  "step_command (Once c) = c"
| "step_command (Retried c) = c"

section \<open>What packaging writes\<close>

text \<open>
  The effects of \<^verbatim>\<open>package\<close> when nothing fails, in order. The loop over the pages that
  are neither static nor special copies the page and writes its two handler artifacts.
\<close>

definition handler_artifacts :: "env \<Rightarrow> page \<Rightarrow> event list" where
  "handler_artifacts env page =
     [WriteFile (join (targetFolder page) ''index.js'') (handler env (targetPageFileName page)),
      WriteFile (join (targetFolder page) ''function.json'') (functionJson env page)]"

definition page_events :: "env \<Rightarrow> page \<Rightarrow> event list" where
  "page_events env page =
     Copy (pageSourcePath page) (targetPath page) # handler_artifacts env page"

definition static_page_copy :: "config \<Rightarrow> page \<Rightarrow> event" where
  "static_page_copy config staticPage =
     Copy (pageSourcePath staticPage)
       (join (join (buildAssetOutputPath config) ''pages'') (targetPageFileName staticPage))"

definition manifest_path :: "config \<Rightarrow> string" where
  "manifest_path config = join (buildOutputPath config) ''packagename.txt''"

definition package_plan :: "env \<Rightarrow> config \<Rightarrow> event list" where
  "package_plan env config =
     [Log ''Packaging next application'',
      Log ''Scanning next build output'',
      ScanBuild (sourcePath config) (buildPagesOutputPath config),
      Log ''Processing SSR pages...''] @
     concat (map (page_events env)
       (filter (\<lambda>p. \<not> isStatic p \<and> \<not> isSpecial p) (buildOutput_pages env))) @
     [Log ''Generating proxy configuration...'',
      WriteFile (join (buildPagesOutputPath config) ''proxies.json'')
        (proxiesJson env
           (''https://'' @ storageAccount config @ ''.blob.core.windows.net/'' @
            assetsContainerName config @ ''/'')
           (buildOutput_pages env)),
      Log ''Generating host configuration...'',
      WriteFile (join (buildPagesOutputPath config) ''host.json'') (hostJson env),
      Log ''Copying static assets'',
      Copy (join (sourcePath config) ''.next/static'')
        (join (buildAssetOutputPath config) ''static'')] @
     map (static_page_copy config) (filter (\<lambda>p. isStatic p) (buildOutput_pages env)) @
     [Log ''Building Azure functions package'',
      Archive (join (buildOutputPath config) packageFilename) (buildPagesOutputPath config)
        packageFilename,
      WriteFile (manifest_path config) packageFilename,
      Remove (buildPagesOutputPath config)]"

text \<open>Running a list of effects in order, up to the first one that fails.\<close>

definition act :: "event \<Rightarrow> unit io" where
  "act ev = (if is_log ev then emit ev else perform ev)"

definition do_events :: "event list \<Rightarrow> unit io" where
  "do_events evs = io_steps (map act evs)"

text \<open>
  A handler artifact is a file \<^verbatim>\<open>index.js\<close> or \<^verbatim>\<open>function.json\<close> written into some
  folder.
\<close>

fun is_handler_artifact :: "event \<Rightarrow> bool" where
  "is_handler_artifact (WriteFile path content) =
     (suffix ''/index.js'' path \<or> suffix ''/function.json'' path)"
| "is_handler_artifact _ = False"

text \<open>
  The specification has the orchestrator find the archive through the manifest: with the
  manifest's content \<open>m\<close>, it would upload this file.
\<close>

definition manifest_archive_path :: "config \<Rightarrow> string \<Rightarrow> string" where
  "manifest_archive_path config m = join (buildOutputPath config) m"

text \<open>The events of a child process, a log line or a timer: none of them touches a file.\<close>

fun touches_no_file :: "event \<Rightarrow> bool" where
  "touches_no_file (Exec c) = True"
| "touches_no_file (Log l) = True"
| "touches_no_file (Sleep ms) = True"
| "touches_no_file _ = False"

text \<open>Three pages: one rendered on the server, one static, one special.\<close>

definition example_dynamic_page :: page where
  "example_dynamic_page =
     \<lparr>isStatic = False, isSpecial = False,
      pageSourcePath = ''/w/.next/serverless/pages/[id].js'',
      targetPath = ''/w/build/pages/id/id.js'', targetFolder = ''/w/build/pages/id'',
      targetPageFileName = ''id.js''\<rparr>"

definition example_static_page :: page where
  "example_static_page =
     \<lparr>isStatic = True, isSpecial = False,
      pageSourcePath = ''/w/.next/serverless/pages/index.html'',
      targetPath = ''/w/build/pages/index/index.html'', targetFolder = ''/w/build/pages/index'',
      targetPageFileName = ''index.html''\<rparr>"

definition example_special_page :: page where
  "example_special_page =
     \<lparr>isStatic = False, isSpecial = True,
      pageSourcePath = ''/w/.next/serverless/pages/_error.js'',
      targetPath = ''/w/build/pages/_error/_error.js'', targetFolder = ''/w/build/pages/_error'',
      targetPageFileName = ''_error.js''\<rparr>"

definition example_pages_env :: env where
  "example_pages_env =
     example_pr_env\<lparr>buildOutput_pages :=
       [example_dynamic_page, example_static_page, example_special_page]\<rparr>"

text \<open>Every event of a part of the script satisfies a predicate, whatever the outcomes are.\<close>

definition emits :: "(event \<Rightarrow> bool) \<Rightarrow> 'a io \<Rightarrow> bool" where
  "emits P m = (\<forall>s. list_all P (events_of (m s)))"

section \<open>Example application settings\<close>

text \<open>The configuration of pull request 12 when the \<^verbatim>\<open>app-settings\<close> input is given.\<close>

definition example_settings_config :: config where
  "example_settings_config = example_pr_config\<lparr>appSecretsJSON := ''{...}''\<rparr>"

text \<open>
  Two inputs of application settings, \<^verbatim>\<open>{"A": "1 B=2"}\<close> (one key, whose value holds a
  space) and \<^verbatim>\<open>{"A": "1", "B": "2"}\<close> (two keys), a \<^verbatim>\<open>JSON.parse\<close> that reads the two, and
  the configurations of pull request 12 with them.
\<close>

definition double_quote :: string where
  "double_quote = [CHR 0x22]"

definition spaced_settings_json :: string where
  "spaced_settings_json =
     ''{'' @ double_quote @ ''A'' @ double_quote @ '': '' @ double_quote @ ''1 B=2'' @
     double_quote @ ''}''"

definition split_settings_json :: string where
  "split_settings_json =
     ''{'' @ double_quote @ ''A'' @ double_quote @ '': '' @ double_quote @ ''1'' @
     double_quote @ '', '' @ double_quote @ ''B'' @ double_quote @ '': '' @ double_quote @
     ''2'' @ double_quote @ ''}''"

definition example_json_env :: env where
  "example_json_env =
     example_pr_env\<lparr>JSON_parse_settings :=
       (\<lambda>j. if j = spaced_settings_json then Inr [(''A'', ''1 B=2'')]
            else if j = split_settings_json then Inr [(''A'', ''1''), (''B'', ''2'')]
            else Inl (SyntaxError ''Unexpected token''))\<rparr>"

definition example_spaced_config :: config where
  "example_spaced_config = example_pr_config\<lparr>appSecretsJSON := spaced_settings_json\<rparr>"

definition example_split_config :: config where
  "example_split_config = example_pr_config\<lparr>appSecretsJSON := split_settings_json\<rparr>"

section \<open>The outcome of a run\<close>

text \<open>
  A run has failed when \<^verbatim>\<open>core.setFailed\<close> was called; it has reported the endpoint when it
  logged the line that \<^verbatim>\<open>deploy\<close> ends with.
\<close>

fun is_set_failed :: "event \<Rightarrow> bool" where
  "is_set_failed (SetFailed m) = True"
| "is_set_failed _ = False"

fun is_deployed_report :: "event \<Rightarrow> bool" where
  "is_deployed_report (Log l) = prefix ''Successfully deployed to '' l"
| "is_deployed_report _ = False"

definition success_line :: "config \<Rightarrow> string" where
  "success_line config = ''Successfully deployed to https://'' @ name config @ ''.azurewebsites.net/''"

text \<open>The condition under which \<^verbatim>\<open>run\<close> cleans up instead of deploying.\<close>

definition teardown_mode :: "config \<Rightarrow> bool" where
  "teardown_mode config = (isPullRequest config \<and> action config = Some ''closed'')"

text \<open>
  The phases of a deploying run after the check of the command line, and the error of the
  first part of a sequence that throws, each part running on the outcomes that the parts
  before it have left.
\<close>

definition phases :: "env \<Rightarrow> config \<Rightarrow> unit io list" where
  "phases env config =
     [build config, package env config, deploy config, configureAppSettings env config]"

fun first_error :: "unit io list \<Rightarrow> outcome list \<Rightarrow> js_error option" where
  "first_error [] s = None"
| "first_error (m # ms) s =
     (case result_of (m s) of
        Inl e \<Rightarrow> Some e
      | Inr u \<Rightarrow> first_error ms (rest_of (m s)))"

text \<open>What \<^verbatim>\<open>run\<close> does for a closed pull request after the check of the command line.\<close>

definition teardown_phases :: "config \<Rightarrow> unit io list" where
  "teardown_phases config =
     [console_log ''cleaning up closed pull request resources.'', clean config]"

text \<open>Pull request 12, just closed.\<close>

definition example_closed_env :: env where
  "example_closed_env = example_pr_env\<lparr>context_action := Some ''closed''\<rparr>"

definition example_closed_config :: config where
  "example_closed_config = example_pr_config\<lparr>action := Some ''closed''\<rparr>"

section \<open>The first revision of deploy\<close>

text \<open>
  \<^verbatim>\<open>src/src/index.js\<close> holds the first revision of the script. Its \<^verbatim>\<open>deploy\<close> takes the
  source path and the build output path as arguments (\<open>source_path\<close> and
  \<open>build_output_path\<close> here, the names being those of fields) and the configuration as
  \<^verbatim>\<open>loadConfig\<close> returned it, creates the function app on a consumption plan only, and
  waits in the retry loop with \<^verbatim>\<open>await sleep(5000)\<close>. That file declares and imports no
  \<^verbatim>\<open>sleep\<close>, and Node.js has no such global: evaluating the call throws a
  \<^verbatim>\<open>ReferenceError\<close>, inside the \<^verbatim>\<open>catch\<close> block of the loop, where nothing catches it.
  The later revisions (\<^verbatim>\<open>upload_loop\<close> above) wait on a timer promise instead.
\<close>

definition sleep_first :: "nat \<Rightarrow> unit io" where
  "sleep_first ms = io_throw (ReferenceError ''sleep is not defined'')"

definition az_group_create_first :: "user_config \<Rightarrow> string" where
  "az_group_create_first config =
     ''az group create --subscription '' @ subscriptionId config @ '' --name '' @
     resourceGroup config @ '' --location '' @ location config"

definition az_storage_account_create_first :: "user_config \<Rightarrow> string" where
  "az_storage_account_create_first config =
     ''az storage account create --subscription '' @ subscriptionId config @ '' --name '' @
     storageAccount config @ '' --location '' @ location config @ '' --resource-group '' @
     resourceGroup config @ '' --sku Standard_LRS''"

definition az_storage_container_create_first :: "user_config \<Rightarrow> string" where
  "az_storage_container_create_first config =
     ''az storage container create --subscription '' @ subscriptionId config @ '' --name '' @
     assetsContainerName config @ '' --account-name '' @ storageAccount config"

definition az_storage_container_set_permission_first :: "user_config \<Rightarrow> string" where
  "az_storage_container_set_permission_first config =
     ''az storage container set-permission --public-access blob --subscription '' @
     subscriptionId config @ '' --account-name '' @ storageAccount config @ '' --name '' @
     assetsContainerName config"

text \<open>Here the line after the continuation starts in the first column.\<close>

definition az_functionapp_create_first :: "user_config \<Rightarrow> string" where
  "az_functionapp_create_first config =
     ''az functionapp create --subscription '' @ subscriptionId config @
     '' --resource-group '' @ resourceGroup config @ '' --consumption-plan-location '' @
     location config @ '' --name '' @ name config @ '' --storage-account '' @
     storageAccount config @ '' --runtime node''"

definition az_enable_run_from_package_first :: "user_config \<Rightarrow> string" where
  "az_enable_run_from_package_first config =
     ''az functionapp config appsettings set --settings WEBSITE_RUN_FROM_PACKAGE=1 --resource-group '' @
     resourceGroup config @ '' --name '' @ name config"

definition az_config_zip_first :: "string \<Rightarrow> user_config \<Rightarrow> string" where
  "az_config_zip_first build_output_path config =
     ''az functionapp deployment source config-zip --subscription '' @ subscriptionId config @
     '' -n '' @ name config @ '' -g '' @ resourceGroup config @ '' --src '' @
     join build_output_path ''package.zip''"

definition az_upload_assets_first :: "string \<Rightarrow> user_config \<Rightarrow> string" where
  "az_upload_assets_first build_output_path config =
     ''az storage blob upload-batch --subscription '' @ subscriptionId config @
     '' --account-name '' @ storageAccount config @ '' --destination '' @
     assetsContainerName config @ '' --destination-path _next --source '' @
     join build_output_path ''assets''"

definition az_upload_public_first :: "string \<Rightarrow> user_config \<Rightarrow> string" where
  "az_upload_public_first source_path config =
     ''az storage blob upload-batch --subscription '' @ subscriptionId config @
     '' --account-name '' @ storageAccount config @ '' --destination '' @
     assetsContainerName config @ '' --destination-path public --source '' @
     join source_path ''public''"

function upload_loop_first :: "string \<Rightarrow> user_config \<Rightarrow> nat \<Rightarrow> unit io" where
  "upload_loop_first build_output_path config attempt =
     (if attempt \<le> maxAttempts then
        io_catch
          (io_steps [
             console_log (''Attempting to upload package ('' @ string_of_nat attempt @ ''/'' @
                          string_of_nat maxAttempts @ '')...''),
             execAsyncInternal (az_config_zip_first build_output_path config),
             console_log ''Upload successful''])
          (\<lambda>e. if attempt + 1 \<le> maxAttempts then
                 io_steps [
                   console_log (''Could not deploy package to Azure function app, waiting 5s and then retrying... '' @ message e),
                   sleep_first 5000,
                   upload_loop_first build_output_path config (attempt + 1)]
               else io_throw (Error ''Could not deploy package to Azure function app''))
      else io_return ())"
  by pat_completeness auto
termination
  by (relation "measure (\<lambda>(build_output_path, config, attempt). maxAttempts + 1 - attempt)") auto

declare upload_loop_first.simps [simp del]

definition deploy_first :: "string \<Rightarrow> string \<Rightarrow> user_config \<Rightarrow> unit io" where
  "deploy_first source_path build_output_path config =
     io_steps [
       console_log ''Deploying next application'',
       log_and_rethrow ''Unable to create resource group''
         (io_steps [
            console_log ''Creating resource group...'',
            execAsyncInternal (az_group_create_first config)]),
       log_and_rethrow ''Unable to create storage account''
         (io_steps [
            console_log ''Creating storage account...'',
            execAsyncInternal (az_storage_account_create_first config)]),
       log_and_rethrow ''Unable to create storage container''
         (io_steps [
            console_log ''Creating storage container...'',
            execAsyncInternal (az_storage_container_create_first config)]),
       log_and_rethrow ''Unable to set storage container permissions''
         (io_steps [
            console_log ''Setting storage container permissions...'',
            execAsyncInternal (az_storage_container_set_permission_first config)]),
       log_and_rethrow ''Unable to create function app''
         (io_steps [
            console_log ''Creating function app...'',
            execAsyncInternal (az_functionapp_create_first config)]),
       log_and_rethrow ''Could not enable package deployment''
         (io_steps [
            console_log ''Enabling package deploy...'',
            execAsyncInternal (az_enable_run_from_package_first config)]),
       console_log ''Uploading package & assets...'',
       upload_loop_first build_output_path config 1,
       console_log ''Uploading assets to blob storage...'',
       io_catch (execAsyncInternal (az_upload_assets_first build_output_path config))
         (\<lambda>e. io_throw (Error ''Could not upload assets to Azure blob storage'')),
       console_log ''Uploading public assets to blob storage...'',
       io_catch (execAsyncInternal (az_upload_public_first source_path config))
         (\<lambda>e. io_throw (Error ''Could not upload public assets to Azure blob storage'')),
       console_log (''Successfully deployed to https://'' @ name config @ ''.azurewebsites.net/'')]"

text \<open>
  The configuration that the first \<^verbatim>\<open>loadConfig\<close> returns for the example (the two defaults
  filled in), and a script of outcomes in which the six provisioning calls succeed and the
  first upload of the package fails; every later call would succeed.
\<close>

definition example_first_config :: user_config where
  "example_first_config =
     example_parsed\<lparr>buildOutputDir := ''build'', assetsContainerName := ''assets''\<rparr>"

definition first_upload_fails :: "outcome list" where
  "first_upload_fails =
     [None, None, None, None, None, None, Some (Error ''Request timed out'')]"

text \<open>Pull request 12 with application settings: the run that gives \<open>example_settings_config\<close>.\<close>

definition example_pr_settings_env :: env where
  "example_pr_settings_env =
     example_pr_env\<lparr>getInput := (\<lambda>k. if k = ''configuration'' then ''{}''
                                    else if k = ''pull-request'' then ''true''
                                    else if k = ''app-settings'' then ''{...}'' else []),
                    JSON_parse_settings :=
                      (\<lambda>j. Inr [(''COSMOS_ENDPOINT'', ''https://db.example''),
                                 (''COSMOS_DATABASE'', ''items'')])\<rparr>"

section \<open>Evaluating effects\<close>

lemmas io_defs =
  io_return_def io_throw_def io_bind_def io_seq_def io_catch_def perform_def emit_def
  console_log_def execAsyncInternal_def sleep_def setFailed_def

lemmas obs_defs = result_of_def events_of_def rest_of_def effects_def

lemma string_of_digit: "n < 10 \<Longrightarrow> string_of_nat n = [digit_char n]"
  by (subst string_of_nat.simps) simp

lemma is_log_lines [simp]: "is_log (attempt_line n)" "is_log (retry_line e)"
  by (simp_all add: attempt_line_def retry_line_def)

section \<open>The retry loop of the package upload\<close>

lemma upload_loop_success:
  assumes "attempt \<le> 3"
  shows "upload_loop config attempt [] =
           (Inr (), [attempt_line attempt, Exec (az_config_zip config),
                     Log ''Upload successful''], [])"
    and "upload_loop config attempt (None # s) =
           (Inr (), [attempt_line attempt, Exec (az_config_zip config),
                     Log ''Upload successful''], s)"
  using assms
  by (subst upload_loop.simps, simp add: maxAttempts_def io_defs attempt_line_def)+

lemma upload_loop_retry:
  assumes "attempt < 3"
  shows "upload_loop config attempt (Some e # s) =
           (case upload_loop config (Suc attempt) s of
              (r, evs, s') \<Rightarrow>
                (r, [attempt_line attempt, Exec (az_config_zip config), retry_line e,
                     Sleep 5000] @ evs, s'))"
  using assms
  by (subst upload_loop.simps)
     (simp add: maxAttempts_def io_defs attempt_line_def retry_line_def
           split: prod.splits sum.splits)

lemma upload_loop_fatal:
  assumes "attempt = 3"
  shows "upload_loop config attempt (Some e # s) =
           (Inl (Error ''Could not deploy package to Azure function app''),
            [attempt_line attempt, Exec (az_config_zip config)], s)"
  using assms
  by (subst upload_loop.simps) (simp add: maxAttempts_def io_defs attempt_line_def)

lemmas upload_loop_eval = upload_loop_success upload_loop_retry upload_loop_fatal

text \<open>
  The loop of the later revisions (\<^verbatim>\<open>src/unnamed/part_001\<close>). Whatever the outcomes of
  the uploads are, the loop runs the upload command once more than uploads failed, and three
  times at most; between two attempts it waits 5000 ms; it succeeds as soon as one attempt
  succeeds, and throws when the third attempt fails; it uses up one outcome for each
  attempt, so there is no fourth attempt.
\<close>

lemma upload_loop_attempts:
  "effects (events_of (upload_loop config 1 s)) =
     take (2 * min 3 (Suc (failed_attempts s)) - 1)
       [Exec (az_config_zip config), Sleep 5000, Exec (az_config_zip config), Sleep 5000,
        Exec (az_config_zip config)]
   \<and> result_of (upload_loop config 1 s) =
       (if failed_attempts s < 3 then Inr ()
        else Inl (Error ''Could not deploy package to Azure function app''))
   \<and> rest_of (upload_loop config 1 s) = drop (min 3 (Suc (failed_attempts s))) s"
proof (cases s)
  case Nil
  then show ?thesis
    by (simp add: upload_loop_eval obs_defs failed_attempts_def)
next
  case first: (Cons a s1)
  show ?thesis
  proof (cases a)
    case None
    with first show ?thesis
      by (simp add: upload_loop_eval obs_defs failed_attempts_def)
  next
    case e1: (Some e1)
    show ?thesis
    proof (cases s1)
      case Nil
      with first e1 show ?thesis
        by (simp add: upload_loop_eval obs_defs failed_attempts_def)
    next
      case second: (Cons b s2)
      show ?thesis
      proof (cases b)
        case None
        with first e1 second show ?thesis
          by (simp add: upload_loop_eval obs_defs failed_attempts_def)
      next
        case e2: (Some e2)
        show ?thesis
        proof (cases s2)
          case Nil
          with first e1 second e2 show ?thesis
            by (simp add: upload_loop_eval obs_defs failed_attempts_def)
        next
          case third: (Cons c s3)
          with first e1 second e2 show ?thesis
            by (cases c) (simp_all add: upload_loop_eval obs_defs failed_attempts_def)
        qed
      qed
    qed
  qed
qed

section \<open>loadConfig: the names of a pull-request deployment\<close>

lemma string_of_nat_length: "n < 10 ^ k \<Longrightarrow> 0 < k \<Longrightarrow> length (string_of_nat n) \<le> k"
proof (induction k arbitrary: n)
  case 0
  then show ?case by simp
next
  case (Suc k)
  show ?case
  proof (cases "n < 10")
    case True
    then show ?thesis by (simp add: string_of_digit)
  next
    case False
    then have k: "0 < k" using Suc.prems by (cases k) auto
    have "n div 10 < 10 ^ k"
      using Suc.prems by (simp add: less_mult_imp_div_less mult.commute)
    from Suc.IH[OF this k] False show ?thesis
      by (subst string_of_nat.simps) simp
  qed
qed

lemma strip_length: "length (strip_trailing_non_alphanumeric str) \<le> length str"
  unfolding strip_trailing_non_alphanumeric_def
  by (simp add: length_dropWhile_le[of _ "rev str", simplified])

lemma strip_last:
  "strip_trailing_non_alphanumeric str = [] \<or>
   is_alphanumeric (last (strip_trailing_non_alphanumeric str))"
proof (cases "dropWhile (\<lambda>c. \<not> is_alphanumeric c) (rev str)")
  case Nil
  then show ?thesis by (simp add: strip_trailing_non_alphanumeric_def)
next
  case (Cons a rest)
  have "\<not> \<not> is_alphanumeric (hd (dropWhile (\<lambda>c. \<not> is_alphanumeric c) (rev str)))"
    by (rule hd_dropWhile) (simp add: Cons)
  with Cons show ?thesis by (simp add: strip_trailing_non_alphanumeric_def)
qed

lemma strip_prefix: "prefix (strip_trailing_non_alphanumeric str) str"
proof -
  have "str = rev (dropWhile (\<lambda>c. \<not> is_alphanumeric c) (rev str)) @
              rev (takeWhile (\<lambda>c. \<not> is_alphanumeric c) (rev str))"
    by (metis rev_append rev_rev_ident takeWhile_dropWhile_id)
  then show ?thesis
    unfolding strip_trailing_non_alphanumeric_def by (metis prefixI)
qed

lemma trimmedName_props:
  assumes "pr < 10 ^ 10"
  shows "length (trimmedName base pr @ ''-'' @ string_of_nat pr) \<le> 60"
    and "trimmedName base pr = [] \<or> is_alphanumeric (last (trimmedName base pr))"
    and "prefix (trimmedName base pr) base"
proof -
  have l: "length (string_of_nat pr) \<le> 10"
    using assms by (rule string_of_nat_length) simp
  have "length (trimmedName base pr) \<le> length (substring0 (nameLength pr) base)"
    unfolding trimmedName_def by (rule strip_length)
  also have "\<dots> \<le> nat (nameLength pr)"
    by (simp add: substring0_def)
  finally show "length (trimmedName base pr @ ''-'' @ string_of_nat pr) \<le> 60"
    using l by (simp add: nameLength_def pullRequestSuffix_def)
  show "trimmedName base pr = [] \<or> is_alphanumeric (last (trimmedName base pr))"
    unfolding trimmedName_def by (rule strip_last)
  have "prefix (trimmedName base pr) (substring0 (nameLength pr) base)"
    unfolding trimmedName_def by (rule strip_prefix)
  then show "prefix (trimmedName base pr) base"
    by (metis prefix_order.order_trans substring0_def take_is_prefix)
qed

lemma pull_request_mode_fields:
  assumes "pull_request_mode env j c = Inr c'"
  shows "name c' = name c \<and> storageAccount c' = storageAccount c \<and>
         assetsContainerName c' = assetsContainerName c \<and> buildOutputDir c' = buildOutputDir c"
  using assms
  by (auto simp: pull_request_mode_def result_bind_def Let_def
           split: if_splits sum.splits option.splits)

lemma required_values_Inr: "required_values c = Inr c' \<Longrightarrow> c' = c"
  by (simp add: required_values_def split: if_splits)

lemma default_values_fields:
  "name (default_values c) = name c"
  "storageAccount (default_values c) = storageAccount c"
  "assetsContainerName (default_values c) =
     (if assetsContainerName c = [] then ''assets'' else assetsContainerName c)"
  "isPullRequest (default_values c) = isPullRequest c"
  "pullRequestId (default_values c) = pullRequestId c"
  by (simp_all add: default_values_def Let_def)

lemma pull_request_rewrite_mode:
  "isPullRequest (pull_request_rewrite c) = isPullRequest c"
  "pullRequestId (pull_request_rewrite c) = pullRequestId c"
  by (simp_all add: pull_request_rewrite_def pull_request_names_def)

lemma initial_config_fields:
  "name (initial_config env parsed a) = name parsed"
  "storageAccount (initial_config env parsed a) = storageAccount parsed"
  "assetsContainerName (initial_config env parsed a) = assetsContainerName parsed"
  by (simp_all add: initial_config_def user_config.defs config.defs)

lemma loadConfig_Inr:
  assumes "loadConfig env = Inr config"
  obtains parsed c where
    "JSON_parse_config env (getInput env ''configuration'') = Inr parsed"
    "pull_request_mode env (getInput env ''pull-request'')
       (initial_config env parsed (getInput env ''app-settings'')) = Inr c"
    "required_values c = Inr c"
    "config = pull_request_rewrite (default_values c)"
  using assms
  by (auto simp: loadConfig_def Let_def result_bind_def dest: required_values_Inr
           split: if_splits sum.splits)

lemma loadConfig_pull_request:
  assumes "loadConfig env = Inr config"
      and "JSON_parse_config env (getInput env ''configuration'') = Inr parsed"
      and "isPullRequest config" and "pullRequestId config = Some pr" and "pr \<noteq> 0"
  shows "name config = trimmedName (name parsed) pr @ ''-'' @ string_of_nat pr
       \<and> storageAccount config = take 24 (''pr'' @ storageAccount parsed)
       \<and> assetsContainerName config =
           (if assetsContainerName parsed = [] then ''assets'' else assetsContainerName parsed) @
           ''-'' @ string_of_nat pr"
proof -
  from assms(1) obtain parsed' c where
    p: "JSON_parse_config env (getInput env ''configuration'') = Inr parsed'" and
    m: "pull_request_mode env (getInput env ''pull-request'')
          (initial_config env parsed' (getInput env ''app-settings'')) = Inr c" and
    c: "config = pull_request_rewrite (default_values c)"
    by (rule loadConfig_Inr)
  from p assms(2) have [simp]: "parsed' = parsed" by simp
  have mode: "isPullRequest (default_values c)" "pullRequestId (default_values c) = Some pr"
    using assms(3,4) by (simp_all add: c pull_request_rewrite_mode)
  then have "config = pull_request_names pr (default_values c)"
    using assms(5) by (simp add: c pull_request_rewrite_def)
  then show ?thesis
    using pull_request_mode_fields[OF m]
    by (simp add: pull_request_names_def default_values_fields initial_config_fields)
qed

lemmas loadConfig_defs =
  loadConfig_def initial_config_def pull_request_mode_def required_values_def
  default_values_def pull_request_rewrite_def pull_request_names_def result_bind_def Let_def
  user_config.defs config.defs trimmedName_def nameLength_def pullRequestSuffix_def
  substring0_def strip_trailing_non_alphanumeric_def is_alphanumeric_def join_def

lemmas example_defs =
  example_env_def example_parsed_def example_pr_env_def example_pr_config_def
  example_push_env_def

lemma string_of_nat_12: "string_of_nat 12 = ''12''"
  by (simp add: string_of_nat.simps[of 12] string_of_digit digit_char_def)

lemma example_pr_loadConfig: "loadConfig example_pr_env = Inr example_pr_config"
  by (simp add: example_defs loadConfig_defs string_of_nat_12)

text \<open>
  C2. In pull-request mode, that is when \<^verbatim>\<open>loadConfig\<close> returns a configuration with the
  flag set and with the identifier \<open>pr\<close> of the pull request, a positive number of at most
  ten digits (the script takes an identifier \<open>0\<close> for a missing one and rewrites nothing),
  and whatever the length of the configured names is: the name of the function app is the
  trimmed base name, a hyphen and the identifier, and has at most 60 characters; the
  trimmed base name is a prefix of the configured name that is empty or ends with a letter
  or a digit; the storage account is \<^verbatim>\<open>pr\<close> and the configured account, cut to 24
  characters; the container is the configured one (\<^verbatim>\<open>assets\<close> by default), a hyphen and
  the identifier.
\<close>

theorem pull_request_names_fit:
  assumes "loadConfig env = Inr config"
      and "JSON_parse_config env (getInput env ''configuration'') = Inr parsed"
      and "isPullRequest config" and "pullRequestId config = Some pr"
      and "pr \<noteq> 0" and "pr < 10 ^ 10"
  shows "name config = trimmedName (name parsed) pr @ ''-'' @ string_of_nat pr
       \<and> length (name config) \<le> 60
       \<and> prefix (trimmedName (name parsed) pr) (name parsed)
       \<and> (trimmedName (name parsed) pr = [] \<or>
          is_alphanumeric (last (trimmedName (name parsed) pr)))
       \<and> storageAccount config = take 24 (''pr'' @ storageAccount parsed)
       \<and> length (storageAccount config) \<le> 24
       \<and> assetsContainerName config =
           (if assetsContainerName parsed = [] then ''assets'' else assetsContainerName parsed) @
           ''-'' @ string_of_nat pr"
proof -
  note names = loadConfig_pull_request[OF assms(1-5)]
  have "length (name config) \<le> 60"
    using names trimmedName_props(1)[OF assms(6)] by simp
  moreover have "length (storageAccount config) \<le> 24"
    using names by simp
  ultimately show ?thesis
    using names trimmedName_props(2,3)[OF assms(6)] by simp
qed

theorem pull_request_names_fit_witness:
  "loadConfig example_pr_env = Inr example_pr_config
   \<and> JSON_parse_config example_pr_env (getInput example_pr_env ''configuration'') =
       Inr example_parsed
   \<and> isPullRequest example_pr_config \<and> pullRequestId example_pr_config = Some 12
   \<and> (12 :: nat) \<noteq> 0 \<and> (12 :: nat) < 10 ^ 10
   \<and> name example_pr_config = ''my-app-12'' \<and> length (name example_pr_config) \<le> 60
   \<and> storageAccount example_pr_config = ''prstore''
   \<and> assetsContainerName example_pr_config = ''assets-12''"
proof -
  have parsed: "JSON_parse_config example_pr_env (getInput example_pr_env ''configuration'') =
                  Inr example_parsed"
    by (simp add: example_defs)
  have mode: "isPullRequest example_pr_config" "pullRequestId example_pr_config = Some 12"
    by (simp_all add: example_pr_config_def)
  have "length (name example_pr_config) \<le> 60"
    by (rule pull_request_names_fit[OF example_pr_loadConfig parsed mode,
          THEN conjunct2, THEN conjunct1]) simp_all
  then show ?thesis
    using example_pr_loadConfig parsed mode by (simp add: example_pr_config_def)
qed

section \<open>loadConfig: pull-request mode outside a pull request\<close>

text \<open>
  C10. With the \<^verbatim>\<open>pull-request\<close> input true and an event other than \<^verbatim>\<open>pull_request\<close>,
  \<^verbatim>\<open>loadConfig\<close> (reached once the configuration input is there and parses) throws a
  \<^verbatim>\<open>ReferenceError\<close> for the identifier \<^verbatim>\<open>eventName\<close>; the run fails with that message,
  which is not the message that names the event; the earlier revision's
  \<^verbatim>\<open>getIsPullRequest\<close> throws the same error.
\<close>

theorem pull_request_mode_reference_error:
  assumes "getInput env ''pull-request'' \<noteq> []"
      and "JSON_parse_boolean env (getInput env ''pull-request'') = Inr True"
      and "context_eventName env \<noteq> ''pull_request''"
      and "getInput env ''configuration'' \<noteq> []"
      and "JSON_parse_config env (getInput env ''configuration'') = Inr parsed"
  shows "loadConfig env = Inl (ReferenceError ''eventName is not defined'')
       \<and> run env s = (Inr (), [SetFailed ''eventName is not defined''], s)
       \<and> ''eventName is not defined'' \<noteq> intended_message (context_eventName env)
       \<and> getIsPullRequest env = Inl (ReferenceError ''eventName is not defined'')"
proof -
  have l: "loadConfig env = Inl (ReferenceError ''eventName is not defined'')"
    using assms
    by (simp add: loadConfig_def Let_def result_bind_def pull_request_mode_def
          initial_config_def user_config.defs config.defs)
  have "run env s = (Inr (), [SetFailed ''eventName is not defined''], s)"
    by (simp add: run_def run_body_def l io_of_result_def io_defs)
  moreover have "getIsPullRequest env = Inl (ReferenceError ''eventName is not defined'')"
    using assms by (simp add: getIsPullRequest_def Let_def result_bind_def)
  ultimately show ?thesis
    using l by (simp add: intended_message_def)
qed

theorem pull_request_mode_reference_error_witness:
  "getInput example_push_env ''pull-request'' \<noteq> []
   \<and> JSON_parse_boolean example_push_env (getInput example_push_env ''pull-request'') = Inr True
   \<and> context_eventName example_push_env \<noteq> ''pull_request''
   \<and> getInput example_push_env ''configuration'' \<noteq> []
   \<and> JSON_parse_config example_push_env (getInput example_push_env ''configuration'') =
       Inr example_parsed
   \<and> run example_push_env [] = (Inr (), [SetFailed ''eventName is not defined''], [])"
proof -
  have h: "getInput example_push_env ''pull-request'' \<noteq> []"
    "JSON_parse_boolean example_push_env (getInput example_push_env ''pull-request'') = Inr True"
    "context_eventName example_push_env \<noteq> ''pull_request''"
    "getInput example_push_env ''configuration'' \<noteq> []"
    "JSON_parse_config example_push_env (getInput example_push_env ''configuration'') =
       Inr example_parsed"
    by (simp_all add: example_defs)
  show ?thesis
    using h pull_request_mode_reference_error[OF h, of "[]"] by simp
qed

section \<open>Observing a sequence of steps\<close>

lemmas io_comb_defs =
  io_return_def io_throw_def io_bind_def io_seq_def io_catch_def emit_def
  console_log_def execAsyncInternal_def sleep_def setFailed_def

lemma outcome_at_simps [simp]:
  "outcome_at [] j = None"
  "outcome_at (x # s) 0 = x"
  "outcome_at (x # s) (Suc j) = outcome_at s j"
  by (simp_all add: outcome_at_def)

lemma outcome_at_drop [simp]: "outcome_at (drop n s) j = outcome_at s (n + j)"
  by (auto simp: outcome_at_def)

lemma perform_outcome:
  "perform ev s = ((case outcome_at s 0 of None \<Rightarrow> Inr () | Some e \<Rightarrow> Inl e), [ev], drop 1 s)"
  by (cases s) (auto simp: perform_def split: option.splits)

lemma commands_append [simp]: "commands (xs @ ys) = commands xs @ commands ys"
  by (induction xs rule: commands.induct) simp_all

lemma observe_seq:
  "observe (io_seq m k) s =
     (case observe m s of
        (ok, cs, s') \<Rightarrow>
          if ok then (case observe k s' of (ok', cs', s'') \<Rightarrow> (ok', cs @ cs', s''))
          else (False, cs, s'))"
  by (auto simp: observe_def io_seq_def io_bind_def obs_defs split: prod.splits sum.splits)

lemma observe_return [simp]: "observe (io_return ()) s = (True, [], s)"
  by (simp add: observe_def io_return_def obs_defs)

lemma observe_throw [simp]: "observe (io_throw e) s = (False, [], s)"
  by (simp add: observe_def io_throw_def obs_defs)

lemma observe_log [simp]: "observe (console_log l) s = (True, [], s)"
  by (simp add: observe_def io_comb_defs obs_defs)

lemma observe_exec [simp]:
  "observe (execAsyncInternal c) s = (outcome_at s 0 = None, [c], drop 1 s)"
  by (simp add: observe_def execAsyncInternal_def perform_outcome obs_defs split: option.splits)

lemma observe_log_and_rethrow [simp]: "observe (log_and_rethrow msg m) s = observe m s"
  by (auto simp: observe_def log_and_rethrow_def io_comb_defs obs_defs
           split: prod.splits sum.splits)

lemma observe_wrapped [simp]:
  "observe (io_catch m (\<lambda>e. io_throw e')) s = observe m s"
  by (auto simp: observe_def io_comb_defs obs_defs split: prod.splits sum.splits)

lemma upload_loop_outcome:
  "attempt \<le> 3 \<Longrightarrow> outcome_at s 0 = None \<Longrightarrow>
     observe (upload_loop config attempt) s = (True, [az_config_zip config], drop 1 s)"
  "attempt < 3 \<Longrightarrow> outcome_at s 0 \<noteq> None \<Longrightarrow>
     observe (upload_loop config attempt) s =
       (case observe (upload_loop config (Suc attempt)) (drop 1 s) of
          (ok, cs, s') \<Rightarrow> (ok, az_config_zip config # cs, s'))"
  "attempt = 3 \<Longrightarrow> outcome_at s 0 \<noteq> None \<Longrightarrow>
     observe (upload_loop config attempt) s = (False, [az_config_zip config], drop 1 s)"
  by (cases s; auto simp: observe_def upload_loop_eval obs_defs attempt_line_def retry_line_def
                    split: prod.splits)+

lemma observe_upload_loop:
  "observe (upload_loop config 1) s = retry 3 (az_config_zip config) s"
  by (simp add: numeral_3_eq_3 upload_loop_outcome split: prod.splits)

lemma run_steps_append:
  "run_steps (xs @ ys) s =
     (case run_steps xs s of
        (ok, cs, s') \<Rightarrow>
          if ok then (case run_steps ys s' of (ok', cs', s'') \<Rightarrow> (ok', cs @ cs', s''))
          else (False, cs, s'))"
  by (induction xs arbitrary: s) (auto split: prod.splits)

lemma steps_nil: "observe (io_steps []) = run_steps []"
  by (rule ext) simp

lemma steps_log:
  "observe (io_steps ms) = run_steps steps \<Longrightarrow>
   observe (io_steps (console_log l # ms)) = run_steps steps"
  by (rule ext) (simp add: observe_seq)

lemma steps_step:
  "observe m = run_step st \<Longrightarrow> observe (io_steps ms) = run_steps steps \<Longrightarrow>
   observe (io_steps (m # ms)) = run_steps (st # steps)"
  by (rule ext) (simp add: observe_seq split: prod.splits)

lemma step_exec: "observe (execAsyncInternal c) = run_step (Once c)"
  by (rule ext) simp

lemma step_provision:
  "observe (log_and_rethrow msg (io_steps [console_log l, execAsyncInternal c])) =
     run_step (Once c)"
  by (rule ext) (simp add: observe_seq)

lemma step_provision_if:
  "observe (log_and_rethrow msg
      (if b then io_steps [console_log l, execAsyncInternal c]
       else io_steps [console_log l', execAsyncInternal c'])) =
     run_step (Once (if b then c else c'))"
  by (rule ext) (simp add: observe_seq)

lemma step_wrapped:
  "observe (io_catch (execAsyncInternal c) (\<lambda>e. io_throw e')) = run_step (Once c)"
  by (rule ext) simp

lemma step_upload: "observe (upload_loop config 1) = run_step (Retried (az_config_zip config))"
  by (rule ext) (simp only: observe_upload_loop run_step.simps)

lemmas step_facts = step_exec step_provision step_provision_if step_wrapped step_upload

lemma observe_deploy: "observe (deploy config) = run_steps (deploy_steps config)"
  unfolding deploy_def deploy_steps_def provisioning_commands_def az_functionapp_create_def
    list.map append.simps
  by (rule steps_log | (rule steps_step, rule step_facts) | rule steps_nil)+

lemma observe_configure:
  "observe (configureAppSettings env config) s =
     (case run_steps (map Once (settings_commands env config)) s of
        (ok, cs, s') \<Rightarrow> (ok \<and> settings_parse env config, cs, s'))"
  by (simp add: configureAppSettings_def settings_commands_def settings_parse_def
      split: sum.splits)

lemma observe_clean: "observe (clean config) = run_steps (map Once (clean_commands config))"
  unfolding clean_def clean_commands_def list.map
  by (rule steps_log | (rule steps_step, rule step_facts) | rule steps_nil)+

section \<open>The provisioning steps\<close>

lemmas az_defs =
  az_group_create_def az_storage_account_create_def az_storage_container_create_def
  az_storage_container_set_permission_def az_functionapp_create_def
  az_functionapp_create_plan_def az_functionapp_create_consumption_def
  az_enable_run_from_package_def az_config_zip_def az_upload_assets_def az_upload_public_def

lemma provisioning_distinct: "distinct (provisioning_commands config)"
  by (simp add: provisioning_commands_def az_defs)

lemma provisioning_not_upload:
  "az_config_zip config \<notin> set (provisioning_commands config)"
  "az_upload_assets config \<notin> set (provisioning_commands config)"
  "az_upload_public config \<notin> set (provisioning_commands config)"
  by (simp_all add: provisioning_commands_def az_defs)

lemma retry_commands: "retry n c s = (ok, cs, s') \<Longrightarrow> set cs \<subseteq> {c}"
proof (induction n arbitrary: s ok cs s')
  case 0
  then show ?case by simp
next
  case (Suc n)
  show ?case
  proof (cases "outcome_at s 0 = None")
    case True
    with Suc.prems show ?thesis by auto
  next
    case False
    obtain ok1 cs1 s1 where r: "retry n c (drop 1 s) = (ok1, cs1, s1)"
      by (cases "retry n c (drop 1 s)") auto
    from Suc.IH[OF r] Suc.prems False r show ?thesis by auto
  qed
qed

lemma run_step_commands: "run_step st s = (ok, cs, s') \<Longrightarrow> set cs \<subseteq> {step_command st}"
  using retry_commands by (cases st) auto

lemma run_steps_commands:
  "run_steps steps s = (ok, cs, s') \<Longrightarrow> set cs \<subseteq> step_command ` set steps"
proof (induction steps arbitrary: s ok cs s')
  case Nil
  then show ?case by simp
next
  case (Cons st steps)
  obtain ok1 cs1 s1 where st: "run_step st s = (ok1, cs1, s1)"
    by (cases "run_step st s") auto
  obtain ok2 cs2 s2 where r: "run_steps steps s1 = (ok2, cs2, s2)"
    by (cases "run_steps steps s1") auto
  from run_step_commands[OF st] Cons.IH[OF r] Cons.prems st r show ?case
    by (auto split: if_splits)
qed

lemma run_steps_once:
  assumes "run_steps (map Once cs @ steps) s = (ok, cmds, s')"
  shows "\<exists>n more. cmds = take n cs @ more \<and> set more \<subseteq> step_command ` set steps \<and>
           (ok \<longrightarrow> length cs \<le> n)"
  using assms
proof (induction cs arbitrary: s ok cmds s')
  case Nil
  then show ?case
    using run_steps_commands[of steps s ok cmds s']
    by (intro exI[of _ 0] exI[of _ cmds]) simp
next
  case (Cons c cs)
  show ?case
  proof (cases "outcome_at s 0 = None")
    case True
    obtain ok1 cmds1 s1 where
      r: "run_steps (map Once cs @ steps) (drop 1 s) = (ok1, cmds1, s1)"
      by (cases "run_steps (map Once cs @ steps) (drop 1 s)") auto
    from Cons.IH[OF r] obtain n more where
      "cmds1 = take n cs @ more" "set more \<subseteq> step_command ` set steps"
      "ok1 \<longrightarrow> length cs \<le> n"
      by blast
    with True r Cons.prems show ?thesis
      by (intro exI[of _ "Suc n"] exI[of _ more]) auto
  next
    case False
    with Cons.prems show ?thesis
      by (intro exI[of _ "Suc 0"] exI[of _ "[]"]) auto
  qed
qed

lemma count_list_distinct: "distinct xs \<Longrightarrow> count_list xs x \<le> 1"
  by (induction xs) auto

lemma count_list_take: "distinct xs \<Longrightarrow> count_list (take n xs) x \<le> 1"
  by (rule count_list_distinct) simp

lemma count_list_notin: "x \<notin> set xs \<Longrightarrow> count_list xs x = 0"
  by (induction xs) auto

lemma count_list_in: "distinct xs \<Longrightarrow> x \<in> set xs \<Longrightarrow> count_list xs x = 1"
  by (induction xs) (auto simp: count_list_notin)

lemma deploy_provisioning_once:
  assumes "c \<in> set (provisioning_commands config)"
  shows "count_list (commands (events_of (deploy config s))) c \<le> 1"
    and "result_of (deploy config s) = Inr () \<Longrightarrow>
         count_list (commands (events_of (deploy config s))) c = 1"
proof -
  let ?tail = "[Retried (az_config_zip config), Once (az_upload_assets config),
                Once (az_upload_public config)]"
  let ?ran = "commands (events_of (deploy config s))"
  have "run_steps (map Once (provisioning_commands config) @ ?tail) s =
          (result_of (deploy config s) = Inr (), ?ran, rest_of (deploy config s))"
    using observe_deploy[of config] by (simp add: observe_def deploy_steps_def fun_eq_iff)
  from run_steps_once[OF this] obtain n more where
    cmds: "?ran = take n (provisioning_commands config) @ more" and
    more: "set more \<subseteq> step_command ` set ?tail" and
    ok: "result_of (deploy config s) = Inr () \<longrightarrow> length (provisioning_commands config) \<le> n"
    by blast
  have "c \<notin> set more"
    using more assms provisioning_not_upload[of config] by auto
  then have zero: "count_list more c = 0"
    by (rule count_list_notin)
  show "count_list ?ran c \<le> 1"
    using count_list_take[OF provisioning_distinct, of n config c] zero
    by (simp add: cmds)
  assume "result_of (deploy config s) = Inr ()"
  with ok have "take n (provisioning_commands config) = provisioning_commands config"
    by simp
  then show "count_list ?ran c = 1"
    using count_list_in[OF provisioning_distinct assms] zero by (simp add: cmds)
qed

text \<open>How the parts of a phase run on a script that starts with given outcomes.\<close>

lemma provision_list:
  "log_and_rethrow msg (io_steps [console_log l, execAsyncInternal c]) (None # s) =
     (Inr (), [Log l, Exec c], s)"
  "log_and_rethrow msg (io_steps [console_log l, execAsyncInternal c]) (Some e # s) =
     (Inl e, [Log l, Exec c, Log msg], s)"
  by (simp_all add: log_and_rethrow_def io_defs)

lemma exec_list:
  "execAsyncInternal c [] = (Inr (), [Exec c], [])"
  "execAsyncInternal c (None # s) = (Inr (), [Exec c], s)"
  "execAsyncInternal c (Some e # s) = (Inl e, [Exec c], s)"
  by (simp_all add: io_defs)

lemma io_steps_Cons:
  "io_steps (m # ms) s =
     (case m s of
        (Inl e, evs, s') \<Rightarrow> (Inl e, evs, s')
      | (Inr u, evs, s') \<Rightarrow> (case io_steps ms s' of (r, evs', s'') \<Rightarrow> (r, evs @ evs', s'')))"
  by (simp add: io_seq_def io_bind_def split: prod.splits sum.splits)

lemma console_log_eval: "console_log l s = (Inr (), [Log l], s)"
  by (simp add: io_defs)

lemma less_6: "i < 6 \<Longrightarrow> i = 0 \<or> i = 1 \<or> i = 2 \<or> i = 3 \<or> i = 4 \<or> i = (5::nat)"
  by arith

lemma less_4: "i < 4 \<Longrightarrow> i = 0 \<or> i = 1 \<or> i = 2 \<or> i = (3::nat)"
  by arith

lemma deploy_provisioning_failure:
  assumes "i < 6"
  shows "result_of (deploy config (replicate i None @ Some e # s)) = Inl e
       \<and> commands (events_of (deploy config (replicate i None @ Some e # s))) =
           take (Suc i) (provisioning_commands config)
       \<and> rest_of (deploy config (replicate i None @ Some e # s)) = s"
  using less_6[OF assms]
  by (elim disjE; cases "plan config = []")
     (simp_all add: deploy_def provisioning_commands_def az_functionapp_create_def
        numeral_eq_Suc provision_list io_steps_Cons console_log_eval obs_defs
        del: io_steps.simps)

lemma clean_failure:
  assumes "i < 4"
  shows "result_of (clean config (replicate i None @ Some e # s)) = Inl e
       \<and> commands (events_of (clean config (replicate i None @ Some e # s))) =
           take (Suc i) (clean_commands config)
       \<and> rest_of (clean config (replicate i None @ Some e # s)) = s"
  using less_4[OF assms]
  by (elim disjE)
     (simp_all add: clean_def clean_commands_def numeral_eq_Suc exec_list io_steps_Cons
        console_log_eval obs_defs del: io_steps.simps)

lemma example_deploy_succeeds: "result_of (deploy example_pr_config []) = Inr ()"
proof -
  have "fst (observe (deploy example_pr_config) [])"
    by (simp add: observe_deploy deploy_steps_def provisioning_commands_def numeral_3_eq_3)
  then show ?thesis
    by (simp add: observe_def)
qed

text \<open>
  C6. When the first \<open>i\<close> provisioning calls succeed and the next one (\<open>i < 6\<close>: resource
  group, storage account, container, container permission, function app, run-from-package)
  fails with the error \<open>e\<close>, \<^verbatim>\<open>deploy\<close> throws \<open>e\<close> itself, has run the provisioning commands
  up to that one and nothing after it, and has used one outcome for each of them: no
  retry. For every script of outcomes, \<^verbatim>\<open>deploy\<close> runs each of the six commands at most
  once, and exactly once when it succeeds.
\<close>

theorem provisioning_single_attempt:
  "(i < 6 \<longrightarrow>
      result_of (deploy config (replicate i None @ Some e # s)) = Inl e
    \<and> commands (events_of (deploy config (replicate i None @ Some e # s))) =
        take (Suc i) (provisioning_commands config)
    \<and> rest_of (deploy config (replicate i None @ Some e # s)) = s)
   \<and> (\<forall>c \<in> set (provisioning_commands config).
         count_list (commands (events_of (deploy config s))) c \<le> 1
       \<and> (result_of (deploy config s) = Inr () \<longrightarrow>
          count_list (commands (events_of (deploy config s))) c = 1))"
  using deploy_provisioning_failure deploy_provisioning_once by blast

theorem provisioning_single_attempt_witness:
  "(2 :: nat) < 6
   \<and> result_of (deploy example_pr_config [None, None, Some (Error ''denied'')]) =
       Inl (Error ''denied'')
   \<and> commands (events_of (deploy example_pr_config [None, None, Some (Error ''denied'')])) =
       [''az group create --subscription sub --name rg --location westeurope'',
        ''az storage account create --subscription sub --name prstore --location westeurope --resource-group rg --kind StorageV2 --sku Standard_LRS'',
        ''az storage container create --subscription sub --name assets-12 --account-name prstore'']
   \<and> az_group_create example_pr_config \<in> set (provisioning_commands example_pr_config)
   \<and> result_of (deploy example_pr_config []) = Inr ()
   \<and> count_list (commands (events_of (deploy example_pr_config [])))
        (az_group_create example_pr_config) = 1"
proof -
  have m: "az_group_create example_pr_config \<in> set (provisioning_commands example_pr_config)"
    by (simp add: provisioning_commands_def)
  note t = provisioning_single_attempt[of 2 example_pr_config "Error ''denied''" "[]"]
  have "result_of (deploy example_pr_config (replicate 2 None @ [Some (Error ''denied'')])) =
          Inl (Error ''denied'')
      \<and> commands (events_of (deploy example_pr_config
            (replicate 2 None @ [Some (Error ''denied'')]))) =
          take (Suc 2) (provisioning_commands example_pr_config)"
    using t by simp
  moreover have "count_list (commands (events_of (deploy example_pr_config [])))
        (az_group_create example_pr_config) = 1"
    using t m example_deploy_succeeds by blast
  ultimately show ?thesis
    using m example_deploy_succeeds
    by (simp add: numeral_eq_Suc provisioning_commands_def az_defs example_pr_config_def)
qed

section \<open>Teardown\<close>

text \<open>
  C3, as the claim states it, fails: when the deletion of the function app fails, \<^verbatim>\<open>clean\<close>
  throws at once; the container and the app-insights resource are not touched.
\<close>

theorem teardown_stops_at_first_failure:
  "result_of (clean example_pr_config [Some (Error ''gone'')]) = Inl (Error ''gone'')
   \<and> commands (events_of (clean example_pr_config [Some (Error ''gone'')])) =
       [''az functionapp delete --subscription sub --resource-group rg --name my-app-12'']"
  by (simp add: clean_def exec_list io_steps_Cons console_log_eval obs_defs
        az_functionapp_delete_def example_pr_config_def del: io_steps.simps)

section \<open>Packaging\<close>

lemma io_seq_return_left: "io_seq (io_return ()) k = k"
  by (rule ext) (simp add: io_seq_def io_bind_def io_return_def split: prod.splits)

lemma io_seq_return_right: "io_seq m (io_return ()) = m"
  by (rule ext) (auto simp: io_seq_def io_bind_def io_return_def split: prod.splits sum.splits)

lemma io_seq_assoc: "io_seq (io_seq a b) c = io_seq a (io_seq b c)"
  by (rule ext) (auto simp: io_seq_def io_bind_def split: prod.splits sum.splits)

lemma io_steps_append: "io_steps (xs @ ys) = io_seq (io_steps xs) (io_steps ys)"
  by (induction xs) (simp_all add: io_seq_return_left io_seq_assoc)

lemma do_events_Nil: "do_events [] = io_return ()"
  by (simp add: do_events_def)

lemma do_events_Cons: "do_events (ev # evs) = io_seq (act ev) (do_events evs)"
  by (simp add: do_events_def)

lemma do_events_append: "do_events (a @ b) = io_seq (do_events a) (do_events b)"
  by (simp add: do_events_def io_steps_append)

lemma log_as_events: "console_log l = do_events [Log l]"
  by (simp add: do_events_def act_def console_log_def io_seq_return_right)

lemma perform_as_events: "\<not> is_log ev \<Longrightarrow> perform ev = do_events [ev]"
  by (simp add: do_events_def act_def io_seq_return_right)

lemma steps_as_events:
  "io_steps [] = do_events []"
  "io_steps (do_events a # ms) = io_seq (do_events a) (io_steps ms)"
  by (simp_all add: do_events_def)

lemma seq_as_events: "io_seq (do_events a) (do_events b) = do_events (a @ b)"
  by (simp add: do_events_append)

lemma loop_as_events: "io_steps (map (\<lambda>p. do_events (f p)) ps) = do_events (concat (map f ps))"
  by (induction ps) (simp_all add: do_events_Nil do_events_append)

lemma package_as_events: "package env config = do_events (package_plan env config)"
proof -
  have pages:
    "io_steps (map (\<lambda>page.
         io_steps [
           perform (Copy (pageSourcePath page) (targetPath page)),
           perform (WriteFile (join (targetFolder page) ''index.js'')
                      (handler env (targetPageFileName page))),
           perform (WriteFile (join (targetFolder page) ''function.json'')
                      (functionJson env page))]) ps) =
     do_events (concat (map (page_events env) ps))" for ps
    by (simp add: perform_as_events steps_as_events seq_as_events loop_as_events
          page_events_def[abs_def] handler_artifacts_def[abs_def] del: io_steps.simps)
  have statics:
    "io_steps (map (\<lambda>staticPage.
         perform (Copy (pageSourcePath staticPage)
                    (join (join (buildAssetOutputPath config) ''pages'')
                       (targetPageFileName staticPage)))) ps) =
     do_events (map (static_page_copy config) ps)" for ps
    using loop_as_events[of "\<lambda>p. [static_page_copy config p]" ps]
    by (simp add: perform_as_events static_page_copy_def[abs_def])
  show ?thesis
    unfolding package_def pages statics
    by (simp add: log_as_events perform_as_events steps_as_events seq_as_events
          package_plan_def manifest_path_def del: io_steps.simps)
qed

lemma do_events_run:
  "prefix (events_of (do_events evs s)) evs \<and>
   (result_of (do_events evs s) = Inr () \<longrightarrow> events_of (do_events evs s) = evs)"
proof (induction evs arbitrary: s)
  case Nil
  show ?case by (simp add: do_events_Nil io_return_def obs_defs)
next
  case (Cons ev evs)
  show ?case
  proof (cases "act ev s")
    case (fields r out s')
    have out: "out = [ev]"
      using fields by (auto simp: act_def emit_def perform_def split: if_splits list.splits option.splits)
    show ?thesis
    proof (cases r)
      case (Inl e)
      with fields out show ?thesis
        by (simp add: do_events_Cons io_seq_def io_bind_def obs_defs)
    next
      case (Inr u)
      with fields out Cons.IH[of s'] show ?thesis
        by (cases "do_events evs s'")
           (simp add: do_events_Cons io_seq_def io_bind_def obs_defs)
    qed
  qed
qed

lemma package_events:
  "set (events_of (package env config s)) \<subseteq> set (package_plan env config)"
  "result_of (package env config s) = Inr () \<Longrightarrow>
   events_of (package env config s) = package_plan env config"
  using do_events_run[of "package_plan env config" s]
  by (auto simp: package_as_events dest: set_mono_prefix)

lemma not_artifact_names:
  "\<not> suffix ''/index.js'' (join d ''proxies.json'')"
  "\<not> suffix ''/function.json'' (join d ''proxies.json'')"
  "\<not> suffix ''/index.js'' (join d ''host.json'')"
  "\<not> suffix ''/function.json'' (join d ''host.json'')"
  "\<not> suffix ''/index.js'' (join d ''packagename.txt'')"
  "\<not> suffix ''/function.json'' (join d ''packagename.txt'')"
  by (simp_all add: join_def suffix_to_prefix)

lemma artifact_names:
  "suffix ''/index.js'' (join d ''index.js'')"
  "suffix ''/function.json'' (join d ''function.json'')"
  by (simp_all add: join_def suffix_def)

lemma plan_artifacts:
  assumes "ev \<in> set (package_plan env config)" and "is_handler_artifact ev"
  shows "\<exists>p \<in> set (buildOutput_pages env).
           \<not> isStatic p \<and> \<not> isSpecial p \<and> ev \<in> set (handler_artifacts env p)"
  using assms
  by (auto simp: package_plan_def page_events_def static_page_copy_def manifest_path_def
        not_artifact_names)

text \<open>
  C5. Whatever the pages are and whatever fails: every handler artifact that \<^verbatim>\<open>package\<close>
  writes (a file \<^verbatim>\<open>index.js\<close> or \<^verbatim>\<open>function.json\<close> in some folder) is the wrapper or the
  binding descriptor of a page that is neither static nor special, so a page marked special
  receives none; and when packaging succeeds, every such page has received both.
\<close>

theorem handler_artifacts_only_for_dynamic_pages:
  "(\<forall>ev \<in> set (events_of (package env config s)).
      is_handler_artifact ev \<longrightarrow>
      (\<exists>p \<in> set (buildOutput_pages env).
         \<not> isStatic p \<and> \<not> isSpecial p \<and> ev \<in> set (handler_artifacts env p)))
   \<and> (result_of (package env config s) = Inr () \<longrightarrow>
       (\<forall>p \<in> set (buildOutput_pages env).
          \<not> isStatic p \<and> \<not> isSpecial p \<longrightarrow>
          set (handler_artifacts env p) \<subseteq> set (events_of (package env config s))))"
proof (intro conjI ballI impI)
  fix ev
  assume "ev \<in> set (events_of (package env config s))" and "is_handler_artifact ev"
  then show "\<exists>p \<in> set (buildOutput_pages env).
           \<not> isStatic p \<and> \<not> isSpecial p \<and> ev \<in> set (handler_artifacts env p)"
    using package_events(1)[of env config s] plan_artifacts by blast
next
  fix p
  assume "result_of (package env config s) = Inr ()" and "p \<in> set (buildOutput_pages env)"
    and "\<not> isStatic p \<and> \<not> isSpecial p"
  then show "set (handler_artifacts env p) \<subseteq> set (events_of (package env config s))"
    by (auto simp: package_events(2) package_plan_def page_events_def)
qed

section \<open>What a part of the script can emit\<close>

lemma emits_return: "emits P (io_return x)"
  by (simp add: emits_def io_return_def obs_defs)

lemma emits_throw: "emits P (io_throw e)"
  by (simp add: emits_def io_throw_def obs_defs)

lemma emits_perform: "P ev \<Longrightarrow> emits P (perform ev)"
  by (simp add: emits_def perform_outcome obs_defs)

lemma emits_emit: "P ev \<Longrightarrow> emits P (emit ev)"
  by (simp add: emits_def emit_def obs_defs)

lemma emits_log: "P (Log l) \<Longrightarrow> emits P (console_log l)"
  by (simp add: console_log_def emits_emit)

lemma emits_exec: "P (Exec c) \<Longrightarrow> emits P (execAsyncInternal c)"
  by (simp add: execAsyncInternal_def emits_perform)

lemma emits_sleep: "P (Sleep ms) \<Longrightarrow> emits P (sleep ms)"
  by (simp add: sleep_def emits_emit)

lemma emits_bind: "emits P m \<Longrightarrow> (\<And>x. emits P (k x)) \<Longrightarrow> emits P (io_bind m k)"
  unfolding emits_def
proof
  fix s
  assume m: "\<forall>s. list_all P (events_of (m s))" and k: "\<And>x. \<forall>s. list_all P (events_of (k x s))"
  obtain r evs s' where ms: "m s = (r, evs, s')"
    by (cases "m s") auto
  show "list_all P (events_of (io_bind m k s))"
  proof (cases r)
    case (Inl e)
    with ms m[rule_format, of s] show ?thesis
      by (simp add: io_bind_def obs_defs)
  next
    case (Inr x)
    obtain r' evs' s'' where ks: "k x s' = (r', evs', s'')"
      by (cases "k x s'") auto
    with Inr ms m[rule_format, of s] k[of x, rule_format, of s'] show ?thesis
      by (simp add: io_bind_def obs_defs)
  qed
qed

lemma emits_seq: "emits P m \<Longrightarrow> emits P k \<Longrightarrow> emits P (io_seq m k)"
  by (simp add: io_seq_def emits_bind)

lemma emits_catch: "emits P m \<Longrightarrow> (\<And>e. emits P (h e)) \<Longrightarrow> emits P (io_catch m h)"
  unfolding emits_def
proof
  fix s
  assume m: "\<forall>s. list_all P (events_of (m s))" and h: "\<And>e. \<forall>s. list_all P (events_of (h e s))"
  obtain r evs s' where ms: "m s = (r, evs, s')"
    by (cases "m s") auto
  show "list_all P (events_of (io_catch m h s))"
  proof (cases r)
    case (Inr x)
    with ms m[rule_format, of s] show ?thesis
      by (simp add: io_catch_def obs_defs)
  next
    case (Inl e)
    obtain r' evs' s'' where hs: "h e s' = (r', evs', s'')"
      by (cases "h e s'") auto
    with Inl ms m[rule_format, of s] h[of e, rule_format, of s'] show ?thesis
      by (simp add: io_catch_def obs_defs)
  qed
qed

lemma emits_steps_Nil: "emits P (io_steps [])"
  by (simp add: emits_return)

lemma emits_steps_Cons: "emits P m \<Longrightarrow> emits P (io_steps ms) \<Longrightarrow> emits P (io_steps (m # ms))"
  by (simp add: emits_seq)

lemma emits_steps_map: "(\<And>p. emits P (f p)) \<Longrightarrow> emits P (io_steps (map f ps))"
  by (induction ps) (simp_all add: emits_return emits_seq)

lemma emits_if: "emits P a \<Longrightarrow> emits P b \<Longrightarrow> emits P (if c then a else b)"
  by simp

lemma emits_log_and_rethrow: "emits P m \<Longrightarrow> P (Log msg) \<Longrightarrow> emits P (log_and_rethrow msg m)"
  by (simp add: log_and_rethrow_def emits_catch emits_seq emits_log emits_throw)

lemma emits_upload_loop:
  assumes "\<And>l. P (Log l)" and "\<And>c. P (Exec c)" and "\<And>ms. P (Sleep ms)"
  shows "emits P (upload_loop config attempt)"
proof (induction config attempt rule: upload_loop.induct)
  case (1 config attempt)
  show ?case
  proof (cases "attempt \<le> maxAttempts")
    case False
    then show ?thesis
      by (subst upload_loop.simps) (simp add: emits_return)
  next
    case True
    show ?thesis
    proof (cases "attempt + 1 \<le> maxAttempts")
      case more: True
      from "1.IH"[OF True] more have "emits P (upload_loop config (attempt + 1))"
        by simp
      with True more show ?thesis
        by (subst upload_loop.simps)
           (auto intro!: emits_catch emits_seq emits_return emits_log emits_exec
              emits_sleep assms)
    next
      case last: False
      with True show ?thesis
        by (subst upload_loop.simps)
           (auto intro!: emits_catch emits_seq emits_return emits_log emits_exec
              emits_throw assms)
    qed
  qed
qed

lemmas emits_intros =
  emits_steps_Nil emits_steps_Cons emits_steps_map emits_log_and_rethrow emits_catch emits_seq
  emits_if emits_log emits_exec emits_sleep emits_perform emits_throw emits_return

lemma deploy_touches_no_file: "emits touches_no_file (deploy config)"
  unfolding deploy_def
  by (intro emits_intros emits_upload_loop) simp_all

section \<open>Packaging and deployment on the example\<close>

lemma do_events_exhausted: "do_events evs [] = (Inr (), evs, [])"
  by (induction evs)
     (simp_all add: do_events_Nil do_events_Cons io_return_def io_seq_def io_bind_def act_def
        emit_def perform_def)

lemma example_package: "package example_pages_env config [] = (Inr (), package_plan example_pages_env config, [])"
  by (simp add: package_as_events do_events_exhausted)

lemmas example_page_defs =
  example_pages_env_def example_dynamic_page_def example_static_page_def
  example_special_page_def

theorem handler_artifacts_only_for_dynamic_pages_witness:
  "example_dynamic_page \<in> set (buildOutput_pages example_pages_env)
   \<and> \<not> isStatic example_dynamic_page \<and> \<not> isSpecial example_dynamic_page
   \<and> result_of (package example_pages_env example_pr_config []) = Inr ()
   \<and> set (handler_artifacts example_pages_env example_dynamic_page) \<subseteq>
       set (events_of (package example_pages_env example_pr_config []))
   \<and> filter is_handler_artifact (events_of (package example_pages_env example_pr_config [])) =
       [WriteFile ''/w/build/pages/id/index.js'' ''id.js'',
        WriteFile ''/w/build/pages/id/function.json'' []]"
proof -
  have p: "example_dynamic_page \<in> set (buildOutput_pages example_pages_env)"
    "\<not> isStatic example_dynamic_page \<and> \<not> isSpecial example_dynamic_page"
    by (simp_all add: example_page_defs)
  have r: "result_of (package example_pages_env example_pr_config []) = Inr ()"
    by (simp add: example_package result_of_def)
  have "set (handler_artifacts example_pages_env example_dynamic_page) \<subseteq>
          set (events_of (package example_pages_env example_pr_config []))"
    using handler_artifacts_only_for_dynamic_pages[of example_pages_env example_pr_config "[]"]
      p r by blast
  moreover have
    "filter is_handler_artifact (events_of (package example_pages_env example_pr_config [])) =
       [WriteFile ''/w/build/pages/id/index.js'' ''id.js'',
        WriteFile ''/w/build/pages/id/function.json'' []]"
    unfolding example_package events_of_def fst_conv snd_conv
    by (simp add: package_plan_def page_events_def
          handler_artifacts_def static_page_copy_def manifest_path_def example_page_defs
          example_defs join_def suffix_to_prefix packageFilename_def)
  ultimately show ?thesis
    using p r by simp
qed

section \<open>The package manifest\<close>

text \<open>
  C7, as the claim states it, fails in its second half: \<^verbatim>\<open>deploy\<close> reads no file, and the
  archive it uploads is \<^verbatim>\<open>package.zip\<close> in the build output directory by a literal of its
  own; had the manifest named another archive, the path found through the manifest would
  differ from the one uploaded.
\<close>

theorem upload_path_not_from_manifest:
  "commands (events_of (deploy example_pr_config [])) ! 6 =
     ''az functionapp deployment source config-zip --subscription sub -n my-app-12 -g rg --src /w/build/package.zip''
   \<and> list_all touches_no_file (events_of (deploy example_pr_config []))
   \<and> manifest_archive_path example_pr_config ''other.zip'' = ''/w/build/other.zip''
   \<and> packagePath example_pr_config \<noteq> manifest_archive_path example_pr_config ''other.zip''"
proof -
  have "run_steps (deploy_steps example_pr_config) [] = observe (deploy example_pr_config) []"
    by (simp add: observe_deploy)
  then have "commands (events_of (deploy example_pr_config [])) =
          fst (snd (run_steps (deploy_steps example_pr_config) []))"
    by (simp add: observe_def)
  then have "commands (events_of (deploy example_pr_config [])) ! 6 = az_config_zip example_pr_config"
    by (simp add: deploy_steps_def provisioning_commands_def numeral_3_eq_3)
  moreover have "list_all touches_no_file (events_of (deploy example_pr_config []))"
    using deploy_touches_no_file by (simp add: emits_def)
  ultimately show ?thesis
    by (simp add: az_config_zip_def packagePath_def manifest_archive_path_def join_def
          example_pr_config_def)
qed

text \<open>
  C7, amended. A successful \<^verbatim>\<open>package\<close> writes the archive \<^verbatim>\<open>package.zip\<close> into the
  build output directory and, beside it, the manifest \<^verbatim>\<open>packagename.txt\<close> with the one
  line \<^verbatim>\<open>package.zip\<close>. \<^verbatim>\<open>deploy\<close> does not read the manifest (it touches no file): its
  upload command names the file \<^verbatim>\<open>package.zip\<close> of the build output directory, which is
  the path that the manifest written by \<^verbatim>\<open>package\<close> names.
\<close>

theorem manifest_written_archive_path_fixed:
  "(result_of (package env config s) = Inr () \<longrightarrow>
      WriteFile (manifest_path config) ''package.zip'' \<in> set (events_of (package env config s))
    \<and> Archive (join (buildOutputPath config) ''package.zip'') (buildPagesOutputPath config)
        ''package.zip'' \<in> set (events_of (package env config s)))
   \<and> list_all touches_no_file (events_of (deploy config s'))
   \<and> az_config_zip config =
       ''az functionapp deployment source config-zip --subscription '' @ subscriptionId config @
       '' -n '' @ name config @ '' -g '' @ resourceGroup config @ '' --src '' @
       join (buildOutputPath config) ''package.zip''
   \<and> packagePath config = manifest_archive_path config packageFilename"
proof -
  have "list_all touches_no_file (events_of (deploy config s'))"
    using deploy_touches_no_file by (simp add: emits_def)
  then show ?thesis
    by (auto simp: package_events(2) package_plan_def packageFilename_def az_config_zip_def
          packagePath_def manifest_archive_path_def)
qed

theorem manifest_written_archive_path_fixed_witness:
  "result_of (package example_pages_env example_pr_config []) = Inr ()
   \<and> WriteFile ''/w/build/packagename.txt'' ''package.zip'' \<in>
       set (events_of (package example_pages_env example_pr_config []))
   \<and> packagePath example_pr_config = ''/w/build/package.zip''"
proof -
  have r: "result_of (package example_pages_env example_pr_config []) = Inr ()"
    by (simp add: example_package result_of_def)
  have m: "manifest_path example_pr_config = ''/w/build/packagename.txt''"
    by (simp add: manifest_path_def join_def example_pr_config_def)
  show ?thesis
    using manifest_written_archive_path_fixed[of example_pages_env example_pr_config "[]" "[]"]
      r m
    by (simp add: packagePath_def join_def example_pr_config_def)
qed

section \<open>Application settings\<close>

lemma foldl_append_concat: "foldl (\<lambda>acc k. acc @ f k) acc ks = acc @ concat (map f ks)"
  by (induction ks arbitrary: acc) simp_all

lemma formatted_distinct:
  assumes "distinct (map fst appSettings)"
  shows "formattedAppSettings appSettings =
           concat (map (\<lambda>(k, v). k @ ''='' @ v @ '' '') appSettings)"
proof -
  let ?f = "\<lambda>key. key @ ''='' @
              (case map_of appSettings key of Some v \<Rightarrow> v | None \<Rightarrow> ''undefined'') @ '' ''"
  have look: "map_of appSettings k = Some v" if "(k, v) \<in> set appSettings" for k v
    using assms that by simp
  have m: "map ?f (map fst appSettings) = map (\<lambda>(k, v). k @ ''='' @ v @ '' '') appSettings"
    unfolding map_map by (rule map_cong[OF refl]) (auto simp: look)
  have "formattedAppSettings appSettings = [] @ concat (map ?f (map fst appSettings))"
    unfolding formattedAppSettings_def by (rule foldl_append_concat)
  also have "\<dots> = concat (map (\<lambda>(k, v). k @ ''='' @ v @ '' '') appSettings)"
    unfolding m by (rule append_Nil)
  finally show ?thesis .
qed

lemma configure_command:
  assumes "appSecretsJSON config \<noteq> []"
      and "JSON_parse_settings env (appSecretsJSON config) = Inr appSettings"
  shows "commands (events_of (configureAppSettings env config s)) =
           [az_appsettings_set config appSettings]"
  using assms
  by (simp add: configureAppSettings_def execAsyncInternal_def perform_outcome obs_defs)

text \<open>The outcome of a run: what \<^verbatim>\<open>run\<close> adds to its body, and the first error of a sequence.\<close>

lemma run_never_throws: "result_of (run env s) = Inr ()"
proof (cases "run_body env s")
  case (fields r evs s')
  then show ?thesis
    by (cases r) (simp_all add: run_def io_catch_def setFailed_def emit_def obs_defs)
qed

lemma run_events:
  "result_of (run_body env s) = Inl e \<Longrightarrow>
     events_of (run env s) = events_of (run_body env s) @ [SetFailed (message e)]"
  "result_of (run_body env s) = Inr () \<Longrightarrow> events_of (run env s) = events_of (run_body env s)"
  by (cases "run_body env s";
      simp add: run_def io_catch_def setFailed_def emit_def obs_defs)+

lemma emits_checkAzureCli:
  "emits (\<lambda>ev. \<not> is_set_failed ev) checkAzureCliIsAvailable"
  unfolding checkAzureCliIsAvailable_def
  by (intro emits_intros) simp_all

lemma emits_build: "emits (\<lambda>ev. \<not> is_set_failed ev) (build config)"
  unfolding build_def
  by (intro emits_intros) simp_all

lemma emits_package: "emits (\<lambda>ev. \<not> is_set_failed ev) (package env config)"
  unfolding package_def
  by (intro emits_intros) simp_all

lemma emits_deploy: "emits (\<lambda>ev. \<not> is_set_failed ev) (deploy config)"
  unfolding deploy_def
  by (intro emits_intros emits_upload_loop) simp_all

lemma emits_configure: "emits (\<lambda>ev. \<not> is_set_failed ev) (configureAppSettings env config)"
  unfolding configureAppSettings_def
  by (auto intro!: emits_intros split: sum.splits)

lemma emits_clean: "emits (\<lambda>ev. \<not> is_set_failed ev) (clean config)"
  unfolding clean_def
  by (intro emits_intros) simp_all

lemma emits_run_body: "emits (\<lambda>ev. \<not> is_set_failed ev) (run_body env)"
  unfolding run_body_def io_of_result_def
  by (intro emits_bind emits_intros emits_checkAzureCli emits_build emits_package emits_deploy
        emits_configure emits_clean)
     (auto intro!: emits_intros split: sum.splits)

lemma run_body_not_failed: "\<not> list_ex is_set_failed (events_of (run_body env s))"
  using emits_run_body[of env] by (simp add: emits_def list_ex_iff list_all_iff)

lemma result_steps:
  "result_of (io_steps ms s) = (case first_error ms s of Some e \<Rightarrow> Inl e | None \<Rightarrow> Inr ())"
proof (induction ms arbitrary: s)
  case Nil
  show ?case by (simp add: io_return_def obs_defs)
next
  case (Cons m ms)
  obtain r evs s1 where m: "m s = (r, evs, s1)"
    by (cases "m s") auto
  show ?case
  proof (cases r)
    case (Inl e)
    with m show ?thesis
      by (simp add: io_seq_def io_bind_def obs_defs)
  next
    case (Inr u)
    with m Cons.IH[of s1] show ?thesis
      by (cases "io_steps ms s1") (simp add: io_seq_def io_bind_def obs_defs)
  qed
qed

lemma steps_success_events:
  assumes "result_of (io_steps ms s) = Inr ()" and "m \<in> set ms"
  shows "\<exists>s'. result_of (m s') = Inr () \<and>
              set (events_of (m s')) \<subseteq> set (events_of (io_steps ms s))"
  using assms
proof (induction ms arbitrary: s)
  case Nil
  then show ?case by simp
next
  case (Cons a ms)
  obtain r evs s1 where a: "a s = (r, evs, s1)"
    by (cases "a s") auto
  obtain r2 evs2 s2 where rest: "io_steps ms s1 = (r2, evs2, s2)"
    by (cases "io_steps ms s1") auto
  from Cons.prems(1) a have r: "r = Inr ()"
    by (cases r) (simp_all add: io_seq_def io_bind_def obs_defs)
  with Cons.prems(1) a rest have r2: "result_of (io_steps ms s1) = Inr ()"
    and evs: "events_of (io_steps (a # ms) s) = evs @ evs2"
    by (simp_all add: io_seq_def io_bind_def obs_defs)
  show ?case
  proof (cases "m = a")
    case True
    with a r evs show ?thesis
      by (intro exI[of _ s]) (simp add: obs_defs)
  next
    case False
    with Cons.prems(2) have "m \<in> set ms" by simp
    from Cons.IH[OF r2 this] obtain s' where
      "result_of (m s') = Inr ()" "set (events_of (m s')) \<subseteq> set (events_of (io_steps ms s1))"
      by blast
    with evs rest show ?thesis
      by (intro exI[of _ s']) (auto simp: obs_defs)
  qed
qed

lemma deploy_reports:
  assumes "result_of (deploy config s) = Inr ()"
  shows "Log (success_line config) \<in> set (events_of (deploy config s))"
proof -
  have "\<exists>s'. result_of (console_log (success_line config) s') = Inr () \<and>
          set (events_of (console_log (success_line config) s')) \<subseteq> set (events_of (deploy config s))"
    using assms unfolding deploy_def
    by (rule steps_success_events) (simp add: success_line_def)
  then show ?thesis
    by (auto simp: console_log_def emit_def obs_defs)
qed

lemma io_bind_return: "io_bind (io_return x) k = k x"
  by (rule ext) (simp add: io_bind_def io_return_def split: prod.splits)

lemma run_body_deploying:
  assumes "loadConfig env = Inr config" and "\<not> teardown_mode config"
  shows "run_body env = io_steps (checkAzureCliIsAvailable # phases env config)"
proof -
  from assms(2) have "\<not> (isPullRequest config \<and> action config = Some ''closed'')"
    by (simp add: teardown_mode_def)
  then have "run_body env =
      io_steps [checkAzureCliIsAvailable, io_steps (phases env config)]"
    using assms(1)
    by (simp only: run_body_def io_of_result_def sum.case io_bind_return if_False phases_def)
  then show ?thesis
    by (simp add: io_seq_return_right)
qed

lemma run_reports:
  assumes "loadConfig env = Inr config" and "\<not> teardown_mode config"
      and "result_of (run_body env s) = Inr ()"
  shows "Log (success_line config) \<in> set (events_of (run env s))"
proof -
  have body: "run_body env = io_steps (checkAzureCliIsAvailable # phases env config)"
    using assms(1,2) by (rule run_body_deploying)
  have "\<exists>s'. result_of (deploy config s') = Inr () \<and>
          set (events_of (deploy config s')) \<subseteq>
          set (events_of (io_steps (checkAzureCliIsAvailable # phases env config) s))"
    using assms(3) unfolding body
    by (rule steps_success_events) (simp add: phases_def)
  then obtain s' where "result_of (deploy config s') = Inr ()"
    "set (events_of (deploy config s')) \<subseteq> set (events_of (run_body env s))"
    unfolding body by blast
  with deploy_reports[of config s'] show ?thesis
    using run_events(2)[OF assms(3)] by auto
qed

lemma example_closed_loadConfig: "loadConfig example_closed_env = Inr example_closed_config"
  by (simp add: example_closed_env_def example_closed_config_def example_defs loadConfig_defs
        string_of_nat_12)

text \<open>
  C9, as the claim states it, fails for the run that cleans up after a closed pull request:
  with every command succeeding the run ends without \<^verbatim>\<open>core.setFailed\<close>, having run the
  check of the command line and the four clean-up commands, and no line reports a deployed
  endpoint.
\<close>

theorem teardown_run_reports_no_endpoint:
  "result_of (run_body example_closed_env []) = Inr ()
   \<and> commands (events_of (run example_closed_env [])) =
       [''az --version'',
        ''az functionapp delete --subscription sub --resource-group rg --name my-app-12'',
        ''az storage container delete --subscription sub --name assets-12 --account-name prstore'',
        ''az extension add -n application-insights'',
        ''az monitor app-insights component delete --subscription sub --resource-group rg --app my-app-12'']
   \<and> filter is_set_failed (events_of (run example_closed_env [])) = []
   \<and> filter is_deployed_report (events_of (run example_closed_env [])) = []"
proof -
  have body: "run_body example_closed_env [] =
      (case io_steps [checkAzureCliIsAvailable,
          io_steps [console_log ''cleaning up closed pull request resources.'',
                    clean example_closed_config]] [] of r \<Rightarrow> r)"
    by (simp add: run_body_def example_closed_loadConfig io_of_result_def io_bind_return
          example_closed_config_def example_pr_config_def)
  show ?thesis
    unfolding run_def io_catch_def body
    by (simp add: checkAzureCliIsAvailable_def clean_def io_defs obs_defs
          az_functionapp_delete_def az_storage_container_delete_def az_extension_add_def
          az_app_insights_delete_def example_closed_config_def example_pr_config_def
          apostrophe_def)
qed


lemma package_exhausted:
  "result_of (package env config []) = Inr () \<and> rest_of (package env config []) = []"
  by (simp add: package_as_events do_events_exhausted obs_defs)

lemma example_deploy_rest: "rest_of (deploy example_pr_config []) = []"
proof -
  have "snd (snd (observe (deploy example_pr_config) [])) = []"
    by (simp add: observe_deploy deploy_steps_def provisioning_commands_def numeral_3_eq_3)
  then show ?thesis
    by (simp add: observe_def)
qed

lemma check_exhausted:
  "result_of (checkAzureCliIsAvailable []) = Inr () \<and> rest_of (checkAzureCliIsAvailable []) = []"
  by (simp add: checkAzureCliIsAvailable_def io_defs obs_defs)

lemma build_exhausted:
  "result_of (build config []) = Inr () \<and> rest_of (build config []) = []"
  by (simp add: build_def io_defs obs_defs)

lemma example_configure_succeeds:
  "result_of (configureAppSettings example_pr_env example_pr_config []) = Inr ()"
  by (simp add: configureAppSettings_def example_pr_config_def example_defs io_defs obs_defs)

section \<open>The retry loop of the first revision\<close>

lemma upload_loop_first_failure:
  assumes "attempt < 3"
  shows "upload_loop_first p config attempt (Some e # s) =
     (Inl (ReferenceError ''sleep is not defined''),
      [attempt_line attempt, Exec (az_config_zip_first p config), retry_line e], s)"
  using assms
  by (subst upload_loop_first.simps)
     (simp add: maxAttempts_def io_defs sleep_first_def attempt_line_def retry_line_def)

lemma deploy_first_upload_failure:
  "result_of (deploy_first sp bp config
      (None # None # None # None # None # None # Some e # s)) =
     Inl (ReferenceError ''sleep is not defined'')
   \<and> commands (events_of (deploy_first sp bp config
      (None # None # None # None # None # None # Some e # s))) =
     [az_group_create_first config, az_storage_account_create_first config,
      az_storage_container_create_first config,
      az_storage_container_set_permission_first config, az_functionapp_create_first config,
      az_enable_run_from_package_first config, az_config_zip_first bp config]
   \<and> Sleep 5000 \<notin> set (events_of (deploy_first sp bp config
      (None # None # None # None # None # None # Some e # s)))
   \<and> last (events_of (deploy_first sp bp config
      (None # None # None # None # None # None # Some e # s))) = retry_line e
   \<and> rest_of (deploy_first sp bp config
      (None # None # None # None # None # None # Some e # s)) = s"
  by (simp add: deploy_first_def provision_list io_steps_Cons console_log_eval
        upload_loop_first_failure attempt_line_def retry_line_def obs_defs
        del: io_steps.simps)

text \<open>
  C1 fails on the first revision of \<^verbatim>\<open>deploy\<close> (\<^verbatim>\<open>src/src/index.js\<close>). When the six
  provisioning calls succeed and the first upload of the package fails, the script logs
  that it waits and retries, and then throws \<^verbatim>\<open>ReferenceError: sleep is not defined\<close>: it has
  run the upload once, has not waited and makes no second attempt, although that attempt
  would succeed. The later revision of \<^verbatim>\<open>deploy\<close> on the same outcomes waits 5000 ms, uploads
  a second time and succeeds.
\<close>

theorem first_revision_upload_not_retried:
  "result_of (deploy_first ''/w'' ''/w/build'' example_first_config first_upload_fails) =
     Inl (ReferenceError ''sleep is not defined'')
   \<and> commands (events_of (deploy_first ''/w'' ''/w/build'' example_first_config first_upload_fails)) =
       [''az group create --subscription sub --name rg --location westeurope'',
        ''az storage account create --subscription sub --name store --location westeurope --resource-group rg --sku Standard_LRS'',
        ''az storage container create --subscription sub --name assets --account-name store'',
        ''az storage container set-permission --public-access blob --subscription sub --account-name store --name assets'',
        ''az functionapp create --subscription sub --resource-group rg --consumption-plan-location westeurope --name my-app --storage-account store --runtime node'',
        ''az functionapp config appsettings set --settings WEBSITE_RUN_FROM_PACKAGE=1 --resource-group rg --name my-app'',
        ''az functionapp deployment source config-zip --subscription sub -n my-app -g rg --src /w/build/package.zip'']
   \<and> last (events_of (deploy_first ''/w'' ''/w/build'' example_first_config first_upload_fails)) =
       Log ''Could not deploy package to Azure function app, waiting 5s and then retrying... Request timed out''
   \<and> Sleep 5000 \<notin> set (events_of (deploy_first ''/w'' ''/w/build'' example_first_config first_upload_fails))
   \<and> result_of (deploy example_pr_config first_upload_fails) = Inr ()
   \<and> filter (\<lambda>ev. ev = Exec (az_config_zip example_pr_config) \<or> ev = Sleep 5000)
        (events_of (deploy example_pr_config first_upload_fails)) =
       [Exec (az_config_zip example_pr_config), Sleep 5000, Exec (az_config_zip example_pr_config)]"
proof -
  have first: "result_of (deploy_first ''/w'' ''/w/build'' example_first_config first_upload_fails) =
     Inl (ReferenceError ''sleep is not defined'')"
    "commands (events_of (deploy_first ''/w'' ''/w/build'' example_first_config first_upload_fails)) =
       [''az group create --subscription sub --name rg --location westeurope'',
        ''az storage account create --subscription sub --name store --location westeurope --resource-group rg --sku Standard_LRS'',
        ''az storage container create --subscription sub --name assets --account-name store'',
        ''az storage container set-permission --public-access blob --subscription sub --account-name store --name assets'',
        ''az functionapp create --subscription sub --resource-group rg --consumption-plan-location westeurope --name my-app --storage-account store --runtime node'',
        ''az functionapp config appsettings set --settings WEBSITE_RUN_FROM_PACKAGE=1 --resource-group rg --name my-app'',
        ''az functionapp deployment source config-zip --subscription sub -n my-app -g rg --src /w/build/package.zip'']"
    "last (events_of (deploy_first ''/w'' ''/w/build'' example_first_config first_upload_fails)) =
       Log ''Could not deploy package to Azure function app, waiting 5s and then retrying... Request timed out''"
    "Sleep 5000 \<notin> set (events_of (deploy_first ''/w'' ''/w/build'' example_first_config first_upload_fails))"
    using deploy_first_upload_failure[of "''/w''" "''/w/build''" example_first_config
        "Error ''Request timed out''" "[]"]
    by (simp_all add: first_upload_fails_def retry_line_def example_first_config_def
          example_parsed_def join_def az_group_create_first_def
          az_storage_account_create_first_def az_storage_container_create_first_def
          az_storage_container_set_permission_first_def az_functionapp_create_first_def
          az_enable_run_from_package_first_def az_config_zip_first_def)
  have nil: "io_steps [] s = (Inr (), [], s)" for s
    by (simp add: io_return_def)
  have later: "result_of (deploy example_pr_config first_upload_fails) = Inr ()"
    "filter (\<lambda>ev. ev = Exec (az_config_zip example_pr_config) \<or> ev = Sleep 5000)
        (events_of (deploy example_pr_config first_upload_fails)) =
       [Exec (az_config_zip example_pr_config), Sleep 5000, Exec (az_config_zip example_pr_config)]"
    by (simp_all add: first_upload_fails_def deploy_def provision_list io_steps_Cons
          console_log_eval upload_loop_eval exec_list io_catch_def attempt_line_def
          retry_line_def obs_defs nil io_throw_def example_pr_config_def az_defs join_def
          packagePath_def
          del: io_steps.simps)
  from first later show ?thesis
    by (intro conjI)
qed

section \<open>Application settings with a space\<close>

text \<open>
  C8 fails on \<^verbatim>\<open>configureAppSettings\<close>: keys and values go into the command line as they
  are, with nothing quoted. For the settings \<^verbatim>\<open>{"A": "1 B=2"}\<close> the script runs the very
  command line that it runs for the settings \<^verbatim>\<open>{"A": "1", "B": "2"}\<close>, so the function app
  cannot receive both mappings as they were given.
\<close>

theorem settings_with_space_not_carried:
  "JSON_parse_settings example_json_env (appSecretsJSON example_spaced_config) =
     Inr [(''A'', ''1 B=2'')]
   \<and> JSON_parse_settings example_json_env (appSecretsJSON example_split_config) =
       Inr [(''A'', ''1''), (''B'', ''2'')]
   \<and> commands (events_of (configureAppSettings example_json_env example_spaced_config [])) =
       [''az functionapp config appsettings set --settings A=1 B=2  --resource-group rg --name my-app-12'']
   \<and> commands (events_of (configureAppSettings example_json_env example_split_config [])) =
       [''az functionapp config appsettings set --settings A=1 B=2  --resource-group rg --name my-app-12'']"
  by (simp add: example_json_env_def example_spaced_config_def example_split_config_def
        spaced_settings_json_def split_settings_json_def double_quote_def
        example_pr_config_def example_defs configureAppSettings_def az_appsettings_set_def
        formattedAppSettings_def io_defs obs_defs)

section \<open>The two kinds of run\<close>

lemma run_body_teardown:
  assumes "loadConfig env = Inr config" and "teardown_mode config"
  shows "run_body env = io_steps (checkAzureCliIsAvailable # teardown_phases config)"
proof -
  from assms(2) have "isPullRequest config \<and> action config = Some ''closed''"
    by (simp add: teardown_mode_def)
  then have "run_body env =
      io_steps [checkAzureCliIsAvailable, io_steps (teardown_phases config)]"
    using assms(1)
    by (simp add: run_body_def io_of_result_def io_bind_return teardown_phases_def
          del: io_steps.simps)
  then show ?thesis
    by (simp add: io_seq_return_right)
qed

lemma run_body_config_error:
  assumes "loadConfig env = Inl e"
  shows "run_body env s = (Inl e, [], s)"
  using assms by (simp add: run_body_def io_of_result_def io_throw_def io_bind_def)

lemma run_rest: "rest_of (run env s) = rest_of (run_body env s)"
  by (cases "run_body env s")
     (auto simp: run_def io_catch_def setFailed_def emit_def obs_defs split: sum.splits)

lemma run_commands: "commands (events_of (run env s)) = commands (events_of (run_body env s))"
  by (cases "run_body env s")
     (auto simp: run_def io_catch_def setFailed_def emit_def obs_defs split: sum.splits)

lemma filter_not_ex: "\<not> list_ex P xs \<Longrightarrow> filter P xs = []"
  by (induction xs) auto

lemma run_failed_once:
  assumes "result_of (run_body env s) = Inl e"
  shows "filter is_set_failed (events_of (run env s)) = [SetFailed (message e)]"
  using run_events(1)[OF assms] filter_not_ex[OF run_body_not_failed[of env s]]
  by simp

lemma step_check: "observe checkAzureCliIsAvailable = run_step (Once ''az --version'')"
  by (rule ext)
     (auto simp: observe_def checkAzureCliIsAvailable_def execAsyncInternal_def
        perform_outcome io_comb_defs obs_defs split: option.splits)

lemma observe_teardown:
  "observe (io_steps (checkAzureCliIsAvailable # teardown_phases config)) =
     run_steps (map Once (''az --version'' # clean_commands config))"
proof -
  have "observe (io_steps [clean config]) = run_steps (map Once (clean_commands config))"
    by (rule ext) (simp add: io_seq_return_right observe_clean)
  then have "observe (io_steps (teardown_phases config)) =
      run_steps (map Once (clean_commands config))"
    unfolding teardown_phases_def by (rule steps_log)
  then have "observe (io_steps [io_steps (teardown_phases config)]) =
      run_steps (map Once (clean_commands config))"
    by (simp add: io_seq_return_right)
  with step_check have "observe (io_steps [checkAzureCliIsAvailable, io_steps (teardown_phases config)]) =
      run_steps (Once ''az --version'' # map Once (clean_commands config))"
    by (rule steps_step)
  then show ?thesis
    by (simp add: io_seq_return_right teardown_phases_def)
qed

lemma teardown_failure:
  assumes "i < 4"
  shows "result_of (io_steps (checkAzureCliIsAvailable # teardown_phases config)
            (None # replicate i None @ Some e # s)) = Inl e
       \<and> commands (events_of (io_steps (checkAzureCliIsAvailable # teardown_phases config)
            (None # replicate i None @ Some e # s))) =
           ''az --version'' # take (Suc i) (clean_commands config)
       \<and> rest_of (io_steps (checkAzureCliIsAvailable # teardown_phases config)
            (None # replicate i None @ Some e # s)) = s"
proof -
  have check: "checkAzureCliIsAvailable (None # t) = (Inr (), [Exec ''az --version''], t)" for t
    by (simp add: checkAzureCliIsAvailable_def io_defs)
  obtain evs where c: "clean config (replicate i None @ Some e # s) = (Inl e, evs, s)"
    and cs: "commands evs = take (Suc i) (clean_commands config)"
    using clean_failure[OF assms, of config e s]
    by (cases "clean config (replicate i None @ Some e # s)") (auto simp: obs_defs)
  show ?thesis
    by (simp add: teardown_phases_def io_steps_Cons check console_log_eval c cs obs_defs
          del: io_steps.simps)
qed

text \<open>
  C3, amended. In a run for a closed pull request the commands are, in order, the check of
  the command line and the four commands of \<^verbatim>\<open>clean\<close>: delete the function app, delete the
  asset container, add the app-insights extension of the command line, delete the
  app-insights resource; each runs only when the ones before it succeeded. When the first
  \<open>i\<close> commands of \<^verbatim>\<open>clean\<close> succeed and the next one fails with the error \<open>e\<close>, the body of the
  run throws \<open>e\<close> itself, no later command runs, and the run calls \<^verbatim>\<open>core.setFailed\<close> once,
  at its end, with the message of \<open>e\<close>: one failure is reported, none is collected.
\<close>

theorem teardown_in_order:
  assumes "loadConfig env = Inr config" and "teardown_mode config"
  shows "observe (run_body env) s =
           run_steps (map Once (''az --version'' # clean_commands config)) s
       \<and> (i < 4 \<longrightarrow>
            result_of (run_body env (None # replicate i None @ Some e # s)) = Inl e
          \<and> commands (events_of (run env (None # replicate i None @ Some e # s))) =
              ''az --version'' # take (Suc i) (clean_commands config)
          \<and> filter is_set_failed (events_of (run env (None # replicate i None @ Some e # s))) =
              [SetFailed (message e)]
          \<and> last (events_of (run env (None # replicate i None @ Some e # s))) =
              SetFailed (message e)
          \<and> rest_of (run env (None # replicate i None @ Some e # s)) = s)"
proof (intro conjI impI)
  note body = run_body_teardown[OF assms]
  show "observe (run_body env) s =
      run_steps (map Once (''az --version'' # clean_commands config)) s"
    unfolding body by (simp only: observe_teardown)
  assume i: "i < 4"
  let ?s = "None # replicate i None @ Some e # s"
  note f = teardown_failure[OF i, of config e s, folded body]
  from f show r: "result_of (run_body env ?s) = Inl e"
    by (rule conjunct1)
  from f show "commands (events_of (run env ?s)) =
      ''az --version'' # take (Suc i) (clean_commands config)"
    by (simp only: run_commands)
  from r show "filter is_set_failed (events_of (run env ?s)) = [SetFailed (message e)]"
    by (rule run_failed_once)
  from run_events(1)[OF r] show "last (events_of (run env ?s)) = SetFailed (message e)"
    by simp
  from f show "rest_of (run env ?s) = s"
    by (simp only: run_rest)
qed

theorem teardown_in_order_witness:
  "loadConfig example_closed_env = Inr example_closed_config
   \<and> teardown_mode example_closed_config
   \<and> (1 :: nat) < 4
   \<and> result_of (run_body example_closed_env [None, None, Some (Error ''locked'')]) =
       Inl (Error ''locked'')
   \<and> commands (events_of (run example_closed_env [None, None, Some (Error ''locked'')])) =
       [''az --version'',
        ''az functionapp delete --subscription sub --resource-group rg --name my-app-12'',
        ''az storage container delete --subscription sub --name assets-12 --account-name prstore'']
   \<and> filter is_set_failed (events_of (run example_closed_env [None, None, Some (Error ''locked'')])) =
       [SetFailed ''locked'']"
proof -
  have cfg: "loadConfig example_closed_env = Inr example_closed_config"
    "teardown_mode example_closed_config"
    by (simp_all add: example_closed_loadConfig teardown_mode_def example_closed_config_def
          example_pr_config_def)
  have i: "(1 :: nat) < 4"
    by simp
  from teardown_in_order[OF cfg, of "[]" 1 "Error ''locked''", THEN conjunct2, THEN mp, OF i]
  have "result_of (run_body example_closed_env [None, None, Some (Error ''locked'')]) =
       Inl (Error ''locked'')
   \<and> commands (events_of (run example_closed_env [None, None, Some (Error ''locked'')])) =
       [''az --version'',
        ''az functionapp delete --subscription sub --resource-group rg --name my-app-12'',
        ''az storage container delete --subscription sub --name assets-12 --account-name prstore'']
   \<and> filter is_set_failed (events_of (run example_closed_env [None, None, Some (Error ''locked'')])) =
       [SetFailed ''locked'']"
    by (simp add: clean_commands_def az_functionapp_delete_def az_storage_container_delete_def
          example_closed_config_def example_pr_config_def)
  with cfg i show ?thesis
    by blast
qed

section \<open>The order of the deployment\<close>

lemma commands_seq:
  "commands (events_of (io_seq m k s)) =
     commands (events_of (m s)) @
     (case result_of (m s) of
        Inl e \<Rightarrow> []
      | Inr u \<Rightarrow> commands (events_of (k (rest_of (m s)))))"
  by (cases "m s")
     (auto simp: io_seq_def io_bind_def obs_defs split: sum.splits prod.splits)

lemma commands_silent:
  assumes "emits (\<lambda>ev. \<forall>c. ev \<noteq> Exec c) m"
  shows "commands (events_of (m s)) = []"
proof -
  have "list_all (\<lambda>ev. \<forall>c. ev \<noteq> Exec c) evs \<Longrightarrow> commands evs = []" for evs
    by (induction evs rule: commands.induct) simp_all
  with assms show ?thesis
    by (simp add: emits_def)
qed

lemma build_package_silent:
  "emits (\<lambda>ev. \<forall>c. ev \<noteq> Exec c) (io_steps [build config, package env config])"
  unfolding build_def package_def
  by (intro emits_intros) simp_all

lemma check_commands: "commands (events_of (checkAzureCliIsAvailable s)) = [''az --version'']"
  using step_check by (auto simp: observe_def fun_eq_iff)

lemma preparation_commands:
  "commands (events_of
     (io_steps [checkAzureCliIsAvailable, build config, package env config] s)) =
   [''az --version'']"
proof -
  have "io_steps [checkAzureCliIsAvailable, build config, package env config] =
      io_seq checkAzureCliIsAvailable (io_steps [build config, package env config])"
    by simp
  then show ?thesis
    by (simp only: commands_seq check_commands commands_silent[OF build_package_silent])
       (simp split: sum.splits)
qed

lemma observe_deployment:
  "observe (io_seq (deploy config) (configureAppSettings env config)) s =
     (case run_steps (deployment_steps env config) s of
        (ok, cs, s') \<Rightarrow> (ok \<and> settings_parse env config, cs, s'))"
  by (simp add: observe_seq observe_deploy observe_configure run_steps_append
        deployment_steps_def split: prod.splits)

lemma run_body_stages:
  assumes "loadConfig env = Inr config" and "\<not> teardown_mode config"
  shows "run_body env =
     io_seq (io_steps [checkAzureCliIsAvailable, build config, package env config])
       (io_seq (deploy config) (configureAppSettings env config))"
  unfolding run_body_deploying[OF assms]
  by (simp add: phases_def io_seq_assoc io_seq_return_right)

text \<open>
  C4. In a run that deploys (the configuration loads, and the run is not the clean-up of a
  closed pull request), \<^verbatim>\<open>run\<close> first checks the command line, builds and packages, which
  runs the one command \<^verbatim>\<open>az --version\<close>. When that succeeded, the commands that follow are
  those that the state machine of the specification runs on the steps in their order: the
  six provisioning commands (the function app on the plan when one is configured, on a
  consumption plan otherwise), the package upload with its retries, the asset tree, the
  public assets, and then the application settings; a step that fails is the last one.
  The body of the run succeeds when the machine does and the application settings parse.
  When the preparation failed, no step of the deployment runs.
\<close>

theorem deployment_order:
  assumes "loadConfig env = Inr config" and "\<not> teardown_mode config"
  shows "observe (run_body env) s =
     (if result_of (io_steps [checkAzureCliIsAvailable, build config, package env config] s) =
           Inr ()
      then
        (case run_steps (deployment_steps env config)
                (rest_of (io_steps [checkAzureCliIsAvailable, build config,
                                    package env config] s)) of
           (ok, cs, s') \<Rightarrow> (ok \<and> settings_parse env config, ''az --version'' # cs, s'))
      else
        (False, [''az --version''],
         rest_of (io_steps [checkAzureCliIsAvailable, build config, package env config] s)))
   \<and> commands (events_of (run env s)) = commands (events_of (run_body env s))"
proof -
  let ?prep = "io_steps [checkAzureCliIsAvailable, build config, package env config]"
  let ?dep = "io_seq (deploy config) (configureAppSettings env config)"
  have prep: "observe ?prep s = (result_of (?prep s) = Inr (), [''az --version''], rest_of (?prep s))"
    by (simp only: observe_def preparation_commands)
  obtain ok cs s' where
    machine: "run_steps (deployment_steps env config) (rest_of (?prep s)) = (ok, cs, s')"
    by (cases "run_steps (deployment_steps env config) (rest_of (?prep s))") auto
  have dep: "observe ?dep (rest_of (?prep s)) = (ok \<and> settings_parse env config, cs, s')"
    by (simp only: observe_deployment machine prod.case)
  have "observe (io_seq ?prep ?dep) s =
      (case observe ?prep s of
         (ready, cs, s') \<Rightarrow>
           if ready then (case observe ?dep s' of (ok', cs', s'') \<Rightarrow> (ok', cs @ cs', s''))
           else (False, cs, s'))"
    by (rule observe_seq)
  then have "observe (io_seq ?prep ?dep) s =
      (if result_of (?prep s) = Inr ()
       then (ok \<and> settings_parse env config, ''az --version'' # cs, s')
       else (False, [''az --version''], rest_of (?prep s)))"
    by (simp only: prep prod.case dep append_Cons append_Nil)
  then show ?thesis
    unfolding run_body_stages[OF assms] run_commands
    by (simp only: machine prod.case simp_thms)
qed

lemma steps_exhausted:
  assumes "\<And>m. m \<in> set ms \<Longrightarrow> result_of (m []) = Inr () \<and> rest_of (m []) = []"
  shows "result_of (io_steps ms []) = Inr () \<and> rest_of (io_steps ms []) = []"
  using assms
proof (induction ms)
  case Nil
  show ?case by (simp add: io_return_def obs_defs)
next
  case (Cons m ms)
  from Cons.prems[of m] obtain evs where m: "m [] = (Inr (), evs, [])"
    by (cases "m []") (auto simp: obs_defs)
  from Cons.IH Cons.prems have "result_of (io_steps ms []) = Inr () \<and> rest_of (io_steps ms []) = []"
    by simp
  with m show ?case
    by (cases "io_steps ms []") (simp add: io_seq_def io_bind_def obs_defs)
qed

lemma preparation_exhausted:
  "result_of (io_steps [checkAzureCliIsAvailable, build config, package env config] []) = Inr ()
   \<and> rest_of (io_steps [checkAzureCliIsAvailable, build config, package env config] []) = []"
  by (rule steps_exhausted) (auto simp: check_exhausted build_exhausted package_exhausted)

lemma example_settings_loadConfig:
  "loadConfig example_pr_settings_env = Inr example_settings_config"
  by (simp add: example_pr_settings_env_def example_settings_config_def example_defs
        loadConfig_defs string_of_nat_12)

lemma example_preparation_quota:
  "result_of (io_steps [checkAzureCliIsAvailable, build example_settings_config,
       package example_pr_settings_env example_settings_config]
      (replicate 11 None @ [None, None, None, None, Some (Error ''quota'')])) = Inr ()
   \<and> rest_of (io_steps [checkAzureCliIsAvailable, build example_settings_config,
       package example_pr_settings_env example_settings_config]
      (replicate 11 None @ [None, None, None, None, Some (Error ''quota'')])) =
     [None, None, None, None, Some (Error ''quota'')]"
  by (simp add: checkAzureCliIsAvailable_def build_def package_def io_defs obs_defs
        numeral_eq_Suc example_pr_settings_env_def example_defs)

theorem deployment_order_witness:
  "loadConfig example_pr_settings_env = Inr example_settings_config
   \<and> \<not> teardown_mode example_settings_config
   \<and> observe (run_body example_pr_settings_env) [] =
       (True,
        [''az --version'',
         ''az group create --subscription sub --name rg --location westeurope'',
         ''az storage account create --subscription sub --name prstore --location westeurope --resource-group rg --kind StorageV2 --sku Standard_LRS'',
         ''az storage container create --subscription sub --name assets-12 --account-name prstore'',
         ''az storage container set-permission --public-access blob --subscription sub --account-name prstore --name assets-12'',
         ''az functionapp create --subscription sub --resource-group rg --consumption-plan-location westeurope   --name my-app-12 --storage-account prstore --runtime node'',
         ''az functionapp config appsettings set --settings WEBSITE_RUN_FROM_PACKAGE=1 --resource-group rg --name my-app-12'',
         ''az functionapp deployment source config-zip --subscription sub -n my-app-12 -g rg --src /w/build/package.zip'',
         ''az storage blob upload-batch --subscription sub --account-name prstore --destination assets-12 --destination-path _next --source /w/build/assets'',
         ''az storage blob upload-batch --subscription sub --account-name prstore --destination assets-12 --destination-path public --source /w/public'',
         ''az functionapp config appsettings set --settings COSMOS_ENDPOINT=https://db.example COSMOS_DATABASE=items  --resource-group rg --name my-app-12''],
        [])
   \<and> observe (run_body example_pr_settings_env)
        (replicate 11 None @ [None, None, None, None, Some (Error ''quota'')]) =
       (False,
        [''az --version'',
         ''az group create --subscription sub --name rg --location westeurope'',
         ''az storage account create --subscription sub --name prstore --location westeurope --resource-group rg --kind StorageV2 --sku Standard_LRS'',
         ''az storage container create --subscription sub --name assets-12 --account-name prstore'',
         ''az storage container set-permission --public-access blob --subscription sub --account-name prstore --name assets-12'',
         ''az functionapp create --subscription sub --resource-group rg --consumption-plan-location westeurope   --name my-app-12 --storage-account prstore --runtime node''],
        [])"
proof -
  have cfg: "loadConfig example_pr_settings_env = Inr example_settings_config"
    "\<not> teardown_mode example_settings_config"
    by (simp_all add: example_settings_loadConfig teardown_mode_def example_settings_config_def
          example_pr_config_def)
  have "observe (run_body example_pr_settings_env) [] =
      (case run_steps (deployment_steps example_pr_settings_env example_settings_config) [] of
         (ok, cs, s') \<Rightarrow>
           (ok \<and> settings_parse example_pr_settings_env example_settings_config,
            ''az --version'' # cs, s'))"
    using deployment_order[OF cfg, of "[]", THEN conjunct1]
    by (simp only: preparation_exhausted simp_thms if_True)
  then have "observe (run_body example_pr_settings_env) [] =
       (True,
        [''az --version'',
         ''az group create --subscription sub --name rg --location westeurope'',
         ''az storage account create --subscription sub --name prstore --location westeurope --resource-group rg --kind StorageV2 --sku Standard_LRS'',
         ''az storage container create --subscription sub --name assets-12 --account-name prstore'',
         ''az storage container set-permission --public-access blob --subscription sub --account-name prstore --name assets-12'',
         ''az functionapp create --subscription sub --resource-group rg --consumption-plan-location westeurope   --name my-app-12 --storage-account prstore --runtime node'',
         ''az functionapp config appsettings set --settings WEBSITE_RUN_FROM_PACKAGE=1 --resource-group rg --name my-app-12'',
         ''az functionapp deployment source config-zip --subscription sub -n my-app-12 -g rg --src /w/build/package.zip'',
         ''az storage blob upload-batch --subscription sub --account-name prstore --destination assets-12 --destination-path _next --source /w/build/assets'',
         ''az storage blob upload-batch --subscription sub --account-name prstore --destination assets-12 --destination-path public --source /w/public'',
         ''az functionapp config appsettings set --settings COSMOS_ENDPOINT=https://db.example COSMOS_DATABASE=items  --resource-group rg --name my-app-12''],
        [])"
    by (simp add: deployment_steps_def deploy_steps_def provisioning_commands_def
          settings_commands_def settings_parse_def numeral_3_eq_3 az_defs packagePath_def
          join_def az_appsettings_set_def formattedAppSettings_def
          example_pr_settings_env_def example_settings_config_def example_pr_config_def
          example_defs)
  moreover have "observe (run_body example_pr_settings_env)
        (replicate 11 None @ [None, None, None, None, Some (Error ''quota'')]) =
      (case run_steps (deployment_steps example_pr_settings_env example_settings_config)
              [None, None, None, None, Some (Error ''quota'')] of
         (ok, cs, s') \<Rightarrow>
           (ok \<and> settings_parse example_pr_settings_env example_settings_config,
            ''az --version'' # cs, s'))"
    using deployment_order[OF cfg,
        of "replicate 11 None @ [None, None, None, None, Some (Error ''quota'')]",
        THEN conjunct1]
    by (simp only: example_preparation_quota simp_thms if_True)
  then have "observe (run_body example_pr_settings_env)
        (replicate 11 None @ [None, None, None, None, Some (Error ''quota'')]) =
       (False,
        [''az --version'',
         ''az group create --subscription sub --name rg --location westeurope'',
         ''az storage account create --subscription sub --name prstore --location westeurope --resource-group rg --kind StorageV2 --sku Standard_LRS'',
         ''az storage container create --subscription sub --name assets-12 --account-name prstore'',
         ''az storage container set-permission --public-access blob --subscription sub --account-name prstore --name assets-12'',
         ''az functionapp create --subscription sub --resource-group rg --consumption-plan-location westeurope   --name my-app-12 --storage-account prstore --runtime node''],
        [])"
    by (simp add: deployment_steps_def deploy_steps_def provisioning_commands_def
          settings_commands_def settings_parse_def numeral_3_eq_3 az_defs packagePath_def
          join_def az_appsettings_set_def formattedAppSettings_def
          example_pr_settings_env_def example_settings_config_def example_pr_config_def
          example_defs)
  ultimately show ?thesis
    using cfg by blast
qed

section \<open>How a run ends\<close>

lemma run_config_error:
  assumes "loadConfig env = Inl e"
  shows "events_of (run env s) = [SetFailed (message e)]"
  by (simp add: run_def run_body_config_error[OF assms] io_catch_def setFailed_def emit_def
        obs_defs)

lemma run_body_phases:
  assumes "loadConfig env = Inr config"
  shows "run_body env =
     io_steps (checkAzureCliIsAvailable #
       (if teardown_mode config then teardown_phases config else phases env config))"
  using run_body_teardown[OF assms] run_body_deploying[OF assms]
  by (cases "teardown_mode config") simp_all

text \<open>
  C9, amended. A run never throws. When the configuration does not load, the run calls
  \<^verbatim>\<open>core.setFailed\<close> with the message of that error and does nothing else. When it loads,
  the run goes through its phases in order: the check of the command line and then build,
  packaging, deployment and application settings, or for a closed pull request the
  clean-up. The first phase that throws ends the body of the run with its error, and the
  run calls \<^verbatim>\<open>core.setFailed\<close> once, as its last act, with the message of that error. When
  no phase throws, \<^verbatim>\<open>core.setFailed\<close> is not called, and a run that is not the clean-up of a
  closed pull request has logged
  \<^verbatim>\<open>Successfully deployed to https://{name}.azurewebsites.net/\<close>.
\<close>

theorem run_reports_outcome:
  "result_of (run env s) = Inr ()
   \<and> (\<forall>e. loadConfig env = Inl e \<longrightarrow> events_of (run env s) = [SetFailed (message e)])
   \<and> (\<forall>config. loadConfig env = Inr config \<longrightarrow>
        (case first_error
                (checkAzureCliIsAvailable #
                   (if teardown_mode config then teardown_phases config
                    else phases env config)) s of
           Some e \<Rightarrow>
             result_of (run_body env s) = Inl e
             \<and> events_of (run env s) = events_of (run_body env s) @ [SetFailed (message e)]
             \<and> \<not> list_ex is_set_failed (events_of (run_body env s))
         | None \<Rightarrow>
             result_of (run_body env s) = Inr ()
             \<and> \<not> list_ex is_set_failed (events_of (run env s))
             \<and> (\<not> teardown_mode config \<longrightarrow>
                  Log (success_line config) \<in> set (events_of (run env s)))))"
proof (intro conjI allI impI)
  show "result_of (run env s) = Inr ()"
    by (rule run_never_throws)
  show "events_of (run env s) = [SetFailed (message e)]" if "loadConfig env = Inl e" for e
    using that by (rule run_config_error)
  fix config
  assume cfg: "loadConfig env = Inr config"
  let ?ms = "checkAzureCliIsAvailable #
      (if teardown_mode config then teardown_phases config else phases env config)"
  have res: "result_of (run_body env s) =
      (case first_error ?ms s of Some e \<Rightarrow> Inl e | None \<Rightarrow> Inr ())"
    by (simp only: run_body_phases[OF cfg] result_steps)
  show "case first_error ?ms s of
          Some e \<Rightarrow>
             result_of (run_body env s) = Inl e
             \<and> events_of (run env s) = events_of (run_body env s) @ [SetFailed (message e)]
             \<and> \<not> list_ex is_set_failed (events_of (run_body env s))
         | None \<Rightarrow>
             result_of (run_body env s) = Inr ()
             \<and> \<not> list_ex is_set_failed (events_of (run env s))
             \<and> (\<not> teardown_mode config \<longrightarrow>
                  Log (success_line config) \<in> set (events_of (run env s)))"
  proof (cases "first_error ?ms s")
    case None
    with res have ok: "result_of (run_body env s) = Inr ()"
      by (simp only: option.case)
    have quiet: "\<not> list_ex is_set_failed (events_of (run env s))"
      unfolding run_events(2)[OF ok] by (rule run_body_not_failed)
    have "Log (success_line config) \<in> set (events_of (run env s))"
      if "\<not> teardown_mode config"
      using cfg that ok by (rule run_reports)
    then have "\<not> teardown_mode config \<longrightarrow>
        Log (success_line config) \<in> set (events_of (run env s))"
      by (rule impI)
    with ok quiet show ?thesis
      unfolding None by (simp only: option.case simp_thms)
  next
    case (Some e)
    with res have failed: "result_of (run_body env s) = Inl e"
      by (simp only: option.case)
    from failed run_events(1)[OF failed] run_body_not_failed[of env s] show ?thesis
      unfolding Some by (simp only: option.case simp_thms)
  qed
qed

lemma example_push_loadConfig:
  "loadConfig example_push_env = Inl (ReferenceError ''eventName is not defined'')"
  by (simp add: example_defs loadConfig_defs)

theorem run_reports_outcome_witness:
  "loadConfig example_push_env = Inl (ReferenceError ''eventName is not defined'')
   \<and> events_of (run example_push_env []) = [SetFailed ''eventName is not defined'']
   \<and> loadConfig example_pr_env = Inr example_pr_config
   \<and> \<not> teardown_mode example_pr_config
   \<and> result_of (run_body example_pr_env []) = Inr ()
   \<and> Log ''Successfully deployed to https://my-app-12.azurewebsites.net/''
       \<in> set (events_of (run example_pr_env []))
   \<and> result_of (run_body example_pr_env [None, Some (Error ''Cannot find module'')]) =
       Inl (Error (''Unable to load next module. Make sure next is in your package.json ''
                   @ ''and you have run '' @ apostrophe @ ''npm install'' @ apostrophe @ ''.''))
   \<and> last (events_of (run example_pr_env [None, Some (Error ''Cannot find module'')])) =
       SetFailed (''Unable to load next module. Make sure next is in your package.json ''
                  @ ''and you have run '' @ apostrophe @ ''npm install'' @ apostrophe @ ''.'')
   \<and> loadConfig example_closed_env = Inr example_closed_config
   \<and> teardown_mode example_closed_config
   \<and> last (events_of (run example_closed_env [None, Some (Error ''gone'')])) =
       SetFailed ''gone''"
proof -
  let ?s = "[None, Some (Error ''Cannot find module'')]"
  let ?msg = "''Unable to load next module. Make sure next is in your package.json ''
              @ ''and you have run '' @ apostrophe @ ''npm install'' @ apostrophe @ ''.''"
  have push: "loadConfig example_push_env = Inl (ReferenceError ''eventName is not defined'')"
    by (rule example_push_loadConfig)
  have cfg: "loadConfig example_pr_env = Inr example_pr_config"
    and deploying: "\<not> teardown_mode example_pr_config"
    by (simp_all add: example_pr_loadConfig teardown_mode_def example_pr_config_def)
  have closed: "loadConfig example_closed_env = Inr example_closed_config"
    and teardown: "teardown_mode example_closed_config"
    by (simp_all add: example_closed_loadConfig teardown_mode_def example_closed_config_def
          example_pr_config_def)
  have ok: "first_error (checkAzureCliIsAvailable # phases example_pr_env example_pr_config) [] = None"
    by (simp add: phases_def check_exhausted build_exhausted package_exhausted
          example_deploy_succeeds example_deploy_rest example_configure_succeeds)
  have fail: "first_error (checkAzureCliIsAvailable # phases example_pr_env example_pr_config) ?s =
      Some (Error ?msg)"
    by (simp add: phases_def checkAzureCliIsAvailable_def build_def io_defs obs_defs
          apostrophe_def)
  have gone: "first_error (checkAzureCliIsAvailable # teardown_phases example_closed_config)
      [None, Some (Error ''gone'')] = Some (Error ''gone'')"
    by (simp add: teardown_phases_def checkAzureCliIsAvailable_def clean_def io_defs obs_defs)
  note config_error = run_reports_outcome[THEN conjunct2, THEN conjunct1, THEN spec, THEN mp]
  note phase = run_reports_outcome[THEN conjunct2, THEN conjunct2, THEN spec, THEN mp]
  have failed_push: "events_of (run example_push_env []) = [SetFailed ''eventName is not defined'']"
    using config_error[OF push, of "[]"] by simp
  have succeeded: "result_of (run_body example_pr_env []) = Inr ()
      \<and> Log (success_line example_pr_config) \<in> set (events_of (run example_pr_env []))"
    using phase[OF cfg, of "[]"] deploying unfolding if_not_P[OF deploying] ok
    by (simp only: option.case simp_thms)
  then have reported: "Log ''Successfully deployed to https://my-app-12.azurewebsites.net/''
      \<in> set (events_of (run example_pr_env []))"
    by (simp add: success_line_def example_pr_config_def)
  have build_failed: "result_of (run_body example_pr_env ?s) = Inl (Error ?msg)
      \<and> events_of (run example_pr_env ?s) =
          events_of (run_body example_pr_env ?s) @ [SetFailed (message (Error ?msg))]"
    using phase[OF cfg, of ?s] unfolding if_not_P[OF deploying] fail
    by (simp only: option.case simp_thms)
  then have last_build: "last (events_of (run example_pr_env ?s)) = SetFailed ?msg"
    by simp
  have "events_of (run example_closed_env [None, Some (Error ''gone'')]) =
      events_of (run_body example_closed_env [None, Some (Error ''gone'')]) @
      [SetFailed (message (Error ''gone''))]"
    using phase[OF closed, of "[None, Some (Error ''gone'')]"] unfolding if_P[OF teardown] gone
    by (simp only: option.case simp_thms)
  then have last_clean: "last (events_of (run example_closed_env [None, Some (Error ''gone'')])) =
      SetFailed ''gone''"
    by simp
  from push failed_push cfg deploying succeeded reported build_failed last_build closed teardown
    last_clean
  show ?thesis
    by blast
qed

end
